theory Spec2Isabelle
  imports Complex_Main
begin

section \<open>JavaScript strings and the built-ins the worker uses\<close>

text \<open>
  A JavaScript string is a sequence of UTF-16 code units; \<open>length\<close>, \<open>slice\<close>,
  \<open>charAt\<close> and the regular expressions of the sources (none has the \<open>u\<close> flag) all
  count code units. A string is therefore a list of code units, each an integer.
  \<open>js\<close> turns an ASCII literal into such a list.

  Two conventions hold throughout.
  \<^item> \<open>toLowerCase\<close> and \<open>toUpperCase\<close> are modelled on the ASCII letters; the Unicode
    case tables beyond ASCII are not part of the model, other code units are unchanged.
  \<^item> The own properties of the plain objects \<open>cache.byExe\<close> and \<open>cache.byPath\<close> hold
    strings, as \<open>putCache\<close> stores them; what the objects inherit from
    \<open>Object.prototype\<close> is read through \<open>getProp\<close> below.
\<close>

type_synonym jsstring = "int list"

definition js :: "string \<Rightarrow> jsstring" where
  "js s = map of_char s"

definition BACKSLASH :: int where
  "BACKSLASH = 92"

definition SLASH :: int where
  "SLASH = 47"

text \<open>A string is truthy when it is not empty; \<open>a || b\<close> on strings.\<close>

definition orElse :: "jsstring \<Rightarrow> jsstring \<Rightarrow> jsstring" where
  "orElse a b = (if a \<noteq> [] then a else b)"

text \<open>\<open>s || null\<close>\<close>

definition orNull :: "jsstring \<Rightarrow> jsstring option" where
  "orNull s = (if s \<noteq> [] then Some s else None)"

text \<open>
  What reading a property of a plain object gives: a string that was stored there, or,
  for a key the object does not own, what \<open>Object.prototype\<close> has under that name (a
  function, or the prototype itself under \<open>__proto__\<close>). \<open>Inherited k\<close> is that
  inherited value for the key \<open>k\<close>; it is not a string. \<open>None\<close> is \<open>undefined\<close>.
\<close>

datatype jsval = Str jsstring | Inherited jsstring

text \<open>Truthiness of a value read: an object or a function is truthy, a string when not empty.\<close>

fun truthy :: "jsval option \<Rightarrow> bool" where
  "truthy None = False"
| "truthy (Some (Str v)) = (v \<noteq> [])"
| "truthy (Some (Inherited k)) = True"

text \<open>\<open>v || null\<close>\<close>

definition orNullVal :: "jsval \<Rightarrow> jsval option" where
  "orNullVal v = (if truthy (Some v) then Some v else None)"

text \<open>The property names of \<open>Object.prototype\<close>.\<close>

definition objectPrototypeKeys :: "jsstring list" where
  "objectPrototypeKeys =
     map js [''constructor'', ''__defineGetter__'', ''__defineSetter__'', ''hasOwnProperty'',
             ''__lookupGetter__'', ''__lookupSetter__'', ''isPrototypeOf'',
             ''propertyIsEnumerable'', ''toString'', ''valueOf'', ''__proto__'',
             ''toLocaleString'']"

text \<open>
  \<open>obj[k]\<close> and \<open>obj[k] = v\<close> for a plain object \<open>obj\<close> with the own properties \<open>m\<close>
  and a string \<open>v\<close>. An assignment creates or overwrites an own property, except under
  \<open>__proto__\<close>: unless the object owns a property of that name (one read from the cache
  file does), the assignment runs the setter of \<open>Object.prototype\<close>, which ignores a
  string and stores nothing.
\<close>

definition getProp :: "(jsstring \<rightharpoonup> jsstring) \<Rightarrow> jsstring \<Rightarrow> jsval option" where
  "getProp m k =
     (case m k of
        Some v \<Rightarrow> Some (Str v)
      | None \<Rightarrow> if k \<in> set objectPrototypeKeys then Some (Inherited k) else None)"

definition setProp :: "(jsstring \<rightharpoonup> jsstring) \<Rightarrow> jsstring \<Rightarrow> jsstring \<Rightarrow> (jsstring \<rightharpoonup> jsstring)" where
  "setProp m k v = (if k = js ''__proto__'' \<and> m k = None then m else m(k \<mapsto> v))"

definition lowerUnit :: "int \<Rightarrow> int" where
  "lowerUnit c = (if 65 \<le> c \<and> c \<le> 90 then c + 32 else c)"

definition upperUnit :: "int \<Rightarrow> int" where
  "upperUnit c = (if 97 \<le> c \<and> c \<le> 122 then c - 32 else c)"

definition toLowerCase :: "jsstring \<Rightarrow> jsstring" where
  "toLowerCase s = map lowerUnit s"

definition toUpperCase :: "jsstring \<Rightarrow> jsstring" where
  "toUpperCase s = map upperUnit s"

text \<open>
  The code units \<open>String.prototype.trim\<close> strips and \<open>\s\<close> matches: WhiteSpace
  (TAB, VT, FF, SP, NBSP, ZWNBSP and the category Zs) and LineTerminator.
\<close>

definition isWhiteSpace :: "int \<Rightarrow> bool" where
  "isWhiteSpace c =
     (c \<in> {9, 10, 11, 12, 13, 32, 160, 5760, 8232, 8233, 8239, 8287, 12288, 65279}
      \<or> (8192 \<le> c \<and> c \<le> 8202))"

definition isLineTerminator :: "int \<Rightarrow> bool" where
  "isLineTerminator c = (c \<in> {10, 13, 8232, 8233})"

definition trim :: "jsstring \<Rightarrow> jsstring" where
  "trim s = rev (dropWhile isWhiteSpace (rev (dropWhile isWhiteSpace s)))"

definition endsWith :: "jsstring \<Rightarrow> jsstring \<Rightarrow> bool" where
  "endsWith s suf = (length suf \<le> length s \<and> drop (length s - length suf) s = suf)"

text \<open>\<open>Number.prototype.toString\<close> of a process id, a non-negative integer.\<close>

function numToString :: "nat \<Rightarrow> jsstring" where
  "numToString n =
     (if n < 10 then [48 + int n] else numToString (n div 10) @ [48 + int (n mod 10)])"
  by pat_completeness auto
termination
  by (relation "measure id") auto

text \<open>\<open>Array.prototype.join\<close>\<close>

fun join :: "jsstring \<Rightarrow> jsstring list \<Rightarrow> jsstring" where
  "join sep [] = []"
| "join sep [x] = x"
| "join sep (x # y # ys) = x @ sep @ join sep (y # ys)"

subsection \<open>\<open>path.basename\<close>\<close>

datatype platform = Win32 | Darwin | Linux | OtherPlatform

text \<open>
  \<open>node:path\<close> is \<open>path.win32\<close> on win32 and \<open>path.posix\<close> elsewhere. \<open>basename\<close>
  skips a drive prefix on win32, then drops the trailing separators and keeps what follows
  the last separator left.
\<close>

definition isPathSeparator :: "platform \<Rightarrow> int \<Rightarrow> bool" where
  "isPathSeparator pf c = (c = SLASH \<or> (pf = Win32 \<and> c = BACKSLASH))"

definition isWindowsDeviceRoot :: "int \<Rightarrow> bool" where
  "isWindowsDeviceRoot c = ((65 \<le> c \<and> c \<le> 90) \<or> (97 \<le> c \<and> c \<le> 122))"

fun skipDrive :: "platform \<Rightarrow> jsstring \<Rightarrow> jsstring" where
  "skipDrive Win32 (a # b # rest) =
     (if isWindowsDeviceRoot a \<and> b = 58 then rest else a # b # rest)"
| "skipDrive pf p = p"

definition basename :: "platform \<Rightarrow> jsstring \<Rightarrow> jsstring" where
  "basename pf p =
     rev (takeWhile (\<lambda>c. \<not> isPathSeparator pf c)
            (dropWhile (isPathSeparator pf) (rev (skipDrive pf p))))"

subsection \<open>\<open>decodeURI\<close>\<close>

datatype error = URIError | ProbeFailed

definition hexVal :: "int \<Rightarrow> int option" where
  "hexVal c =
     (if 48 \<le> c \<and> c \<le> 57 then Some (c - 48)
      else if 65 \<le> c \<and> c \<le> 70 then Some (c - 55)
      else if 97 \<le> c \<and> c \<le> 102 then Some (c - 87)
      else None)"

text \<open>The octet of an escape \<open>%XY\<close> at the head of the string, and the rest.\<close>

fun escapeOctet :: "jsstring \<Rightarrow> (int \<times> jsstring) option" where
  "escapeOctet (p # x # y # rest) =
     (if p = 37 then
        (case (hexVal x, hexVal y) of
           (Some h, Some l) \<Rightarrow> Some (16 * h + l, rest)
         | _ \<Rightarrow> None)
      else None)"
| "escapeOctet _ = None"

text \<open>The \<open>n\<close> continuation escapes that follow the first octet of a sequence.\<close>

fun continuationOctets :: "nat \<Rightarrow> jsstring \<Rightarrow> (int list \<times> jsstring) option" where
  "continuationOctets 0 s = Some ([], s)"
| "continuationOctets (Suc n) s =
     (case escapeOctet s of
        None \<Rightarrow> None
      | Some (b, rest) \<Rightarrow>
          (case continuationOctets n rest of
             None \<Rightarrow> None
           | Some (bs, rest') \<Rightarrow> Some (b # bs, rest')))"

text \<open>Number of octets of the sequence a first octet announces (its leading one bits).\<close>

definition sequenceLength :: "int \<Rightarrow> nat" where
  "sequenceLength b =
     (if b < 128 then 0 else if b < 192 then 1 else if b < 224 then 2
      else if b < 240 then 3 else if b < 248 then 4 else 5)"

text \<open>
  The code point of a well-formed UTF-8 sequence: continuation octets are \<open>10xxxxxx\<close>,
  the encoding is the shortest one, and the code point is no surrogate and at most
  \<open>0x10FFFF\<close>.
\<close>

definition utf8CodePoint :: "int \<Rightarrow> int list \<Rightarrow> int option" where
  "utf8CodePoint b bs =
     (let n = sequenceLength b;
          v = foldl (\<lambda>a c. 64 * a + c mod 64) (b mod (2 ^ (7 - n))) bs;
          least = (if n = 2 then 128 else if n = 3 then 2048 else 65536)
      in if list_all (\<lambda>c. 128 \<le> c \<and> c < 192) bs \<and> least \<le> v \<and> v \<le> 1114111
            \<and> \<not> (55296 \<le> v \<and> v \<le> 57343)
         then Some v else None)"

definition codePointToUnits :: "int \<Rightarrow> jsstring" where
  "codePointToUnits v =
     (if v < 65536 then [v]
      else [55296 + (v - 65536) div 1024, 56320 + (v - 65536) mod 1024])"

text \<open>The set \<open>;/?:@&=+$,#\<close> whose escapes \<open>decodeURI\<close> leaves in place.\<close>

definition uriReservedPlusHash :: "int list" where
  "uriReservedPlusHash = js '';/?:@&=+$,#''"

text \<open>
  One round of the loop of \<open>Decode\<close> at a code unit \<open>c\<close> followed by \<open>s\<close>: the text it
  appends and how many code units of \<open>s\<close> it consumes besides \<open>c\<close>. An escape that is cut
  short or is no hexadecimal number, a first octet \<open>10xxxxxx\<close> or \<open>11111xxx\<close>, and octets
  that are no UTF-8 encoding of a code point throw.
\<close>

definition decodeStep :: "int \<Rightarrow> jsstring \<Rightarrow> error + (jsstring \<times> nat)" where
  "decodeStep c s =
     (if c \<noteq> 37 then Inr ([c], 0)
      else
        (case escapeOctet (c # s) of
           None \<Rightarrow> Inl URIError
         | Some (b, rest) \<Rightarrow>
             (let n = sequenceLength b in
              if n = 0 then
                Inr (if b \<in> set uriReservedPlusHash then take 3 (c # s) else [b], 2)
              else if n = 1 \<or> n > 4 then Inl URIError
              else
                (case continuationOctets (n - 1) rest of
                   None \<Rightarrow> Inl URIError
                 | Some (bs, rest') \<Rightarrow>
                     (case utf8CodePoint b bs of
                        None \<Rightarrow> Inl URIError
                      | Some v \<Rightarrow> Inr (codePointToUnits v, 2 + 3 * (n - 1)))))))"

function decodeURI :: "jsstring \<Rightarrow> error + jsstring" where
  "decodeURI [] = Inr []"
| "decodeURI (c # s) =
     (case decodeStep c s of
        Inl err \<Rightarrow> Inl err
      | Inr (chunk, k) \<Rightarrow>
          (case decodeURI (drop k s) of
             Inl err \<Rightarrow> Inl err
           | Inr decoded \<Rightarrow> Inr (chunk @ decoded)))"
  by pat_completeness auto
termination
  by (relation "measure length") auto

section \<open>The presence worker: tables and classification\<close>

subsection \<open>Regular expressions of the path hints\<close>

text \<open>
  The fragment of regular expressions the sources use, all with the flag \<open>i\<close>: literal
  text, a class of code units, a starred class (\<open>\s*\<close>, \<open>.*\<close>), sequence,
  alternative and positive lookahead. Under \<open>i\<close> two code units match when their
  canonical (upper case) forms agree. \<open>matchAt r s k\<close> holds when \<open>r\<close> matches a prefix
  of \<open>s\<close> whose remainder satisfies \<open>k\<close>; \<open>test\<close> is \<open>RegExp.prototype.test\<close>: a
  match at some position.
\<close>

datatype rx =
    Lit jsstring
  | OneOf "int list"
  | Many "int \<Rightarrow> bool"
  | Seq rx rx
  | Alt rx rx
  | Ahead rx

fun matchMany :: "(int \<Rightarrow> bool) \<Rightarrow> jsstring \<Rightarrow> (jsstring \<Rightarrow> bool) \<Rightarrow> bool" where
  "matchMany p [] k = k []"
| "matchMany p (c # s) k = (k (c # s) \<or> (p c \<and> matchMany p s k))"

fun matchAt :: "rx \<Rightarrow> jsstring \<Rightarrow> (jsstring \<Rightarrow> bool) \<Rightarrow> bool" where
  "matchAt (Lit w) s k =
     (length w \<le> length s \<and> map upperUnit (take (length w) s) = map upperUnit w
      \<and> k (drop (length w) s))"
| "matchAt (OneOf cs) s k =
     (case s of [] \<Rightarrow> False | c # t \<Rightarrow> upperUnit c \<in> set (map upperUnit cs) \<and> k t)"
| "matchAt (Many p) s k = matchMany p s k"
| "matchAt (Seq a b) s k = matchAt a s (\<lambda>t. matchAt b t k)"
| "matchAt (Alt a b) s k = (matchAt a s k \<or> matchAt b s k)"
| "matchAt (Ahead a) s k = (matchAt a s (\<lambda>t. True) \<and> k s)"

fun test :: "rx \<Rightarrow> jsstring \<Rightarrow> bool" where
  "test r [] = matchAt r [] (\<lambda>t. True)"
| "test r (c # s) = (matchAt r (c # s) (\<lambda>t. True) \<or> test r s)"

definition seqs :: "rx list \<Rightarrow> rx" where
  "seqs rs = foldr Seq rs (Lit [])"

text \<open>\<open>[\/\\]\<close>, \<open>\s*\<close> and \<open>.*\<close>\<close>

definition anySlash :: rx where
  "anySlash = OneOf [SLASH, BACKSLASH]"

definition spaces :: rx where
  "spaces = Many isWhiteSpace"

definition dots :: rx where
  "dots = Many (\<lambda>c. \<not> isLineTerminator c)"

subsection \<open>Constants and tables\<close>

definition ACTIVE_STALE_MS :: int where
  "ACTIVE_STALE_MS = 5000"

definition HEARTBEAT_MS :: int where
  "HEARTBEAT_MS = 5000"

definition LAUNCHER_BASES :: "jsstring list" where
  "LAUNCHER_BASES = map js
     [''steam.exe'', ''epicgameslauncher.exe'', ''battle.net.exe'', ''origin.exe'',
      ''ea desktop.exe'']"

definition NON_GAME_BASES :: "jsstring list" where
  "NON_GAME_BASES = map js
     [''chrome.exe'', ''msedge.exe'', ''firefox.exe'', ''opera.exe'', ''opera_gx.exe'',
      ''brave.exe'', ''vivaldi.exe'', ''iexplore.exe'', ''safari.exe'',
      ''discord.exe'', ''telegram.exe'', ''slack.exe'', ''teams.exe'', ''skype.exe'',
      ''outlook.exe'', ''winword.exe'', ''excel.exe'', ''powerpnt.exe'', ''thunderbird.exe'',
      ''code.exe'', ''goland64.exe'', ''idea64.exe'', ''pycharm64.exe'', ''webstorm64.exe'',
      ''clion64.exe'', ''studio64.exe'', ''devenv.exe'',
      ''sublime_text.exe'', ''notepad++.exe'']"

definition KNOWN_EXE_MAP :: "(jsstring \<times> jsstring) list" where
  "KNOWN_EXE_MAP = map (\<lambda>(k, v). (js k, js v))
     [(''cs2.exe'', ''Counter-Strike 2''),
      (''csgo.exe'', ''Counter-Strike: Global Offensive''),
      (''dota2.exe'', ''Dota 2''),
      (''eldenring.exe'', ''ELDEN RING''),
      (''witcher3.exe'', ''The Witcher 3''),
      (''steam.exe'', ''Steam''),
      (''epicgameslauncher.exe'', ''Epic Games Launcher''),
      (''battle.net.exe'', ''Battle.net''),
      (''code.exe'', ''Visual Studio Code''),
      (''discord.exe'', ''Discord''),
      (''electron'', ''Electron App''),
      (''terminal'', ''Terminal'')]"

definition KNOWN_GEEK_SET :: "jsstring list" where
  "KNOWN_GEEK_SET = map js
     [''code.exe'', ''goland64.exe'', ''idea64.exe'', ''pycharm64.exe'', ''webstorm64.exe'',
      ''clion64.exe'', ''studio64.exe'', ''devenv.exe'', ''sublime_text.exe'',
      ''notepad++.exe'',
      ''powershell.exe'', ''wt.exe'', ''windowsterminal.exe'', ''conhost.exe'', ''cmd.exe'',
      ''wsl.exe'',
      ''git.exe'', ''gitkraken.exe'', ''sourceTree.exe'', ''docker desktop.exe'',
      ''docker.exe'', ''kubectl.exe'',
      ''postman.exe'', ''insomnia.exe'', ''dbeaver.exe'', ''tableplus.exe'', ''heidisql.exe'',
      ''pgadmin4.exe'',
      ''obsidian.exe'', ''figma.exe'', ''unity.exe'', ''ue4editor.exe'', ''unrealeditor.exe'',
      ''blender.exe'',
      ''discord.exe'', ''telegram.exe'', ''slack.exe'']"

definition GAME_PATH_HINTS :: "rx list" where
  "GAME_PATH_HINTS =
     [seqs [Lit (js ''steamapps''), anySlash, Lit (js ''common''), anySlash],
      seqs [Lit [BACKSLASH], Lit (js ''steam''), Lit [BACKSLASH], dots, Lit [BACKSLASH],
            Lit (js ''common''), Many (\<lambda>c. c = BACKSLASH)],
      seqs [Lit (js ''epic''), spaces, Lit (js ''games'')],
      seqs [Lit (js ''gog''), spaces, Lit (js ''galaxy''), anySlash, Lit (js ''games'')],
      seqs [Lit (js ''ubisoft''), spaces,
            Alt (Lit (js ''connect''))
                (seqs [Lit (js ''game''), spaces, Lit (js ''launcher'')])],
      Lit (js ''battle.net''),
      Alt (seqs [Lit (js ''origin''), anySlash])
          (seqs [Lit (js ''ea''), spaces, Alt (Lit (js ''games'')) (Lit (js ''desktop''))]),
      seqs [Lit (js ''riot''), spaces, Lit (js ''games'')],
      seqs [Lit (js ''rockstar''), spaces, Lit (js ''games'')],
      Alt (Lit (js ''xboxgames''))
          (seqs [Lit (js ''microsoft''), Lit [BACKSLASH], Lit (js ''xbox'')]),
      seqs [Lit (js ''games''), anySlash,
            Ahead (seqs [dots, Lit (js ''.''),
                         Alt (Lit (js ''exe'')) (Lit (js ''app''))])]]"

subsection \<open>\<open>exeBase\<close>, \<open>hasGameHint\<close>, \<open>classify\<close>\<close>

text \<open>The worker's \<open>exeBase\<close>: basename, lower case, trimmed.\<close>

definition exeBase :: "platform \<Rightarrow> jsstring \<Rightarrow> jsstring" where
  "exeBase pf fpOrName =
     (if fpOrName = [] then [] else trim (toLowerCase (basename pf fpOrName)))"

definition hasGameHint :: "jsstring \<Rightarrow> bool" where
  "hasGameHint p = list_ex (\<lambda>rx. test rx (toLowerCase p)) GAME_PATH_HINTS"

datatype category = Game | Geek | Other

record classification =
  category :: category
  confidence :: rat

definition classify :: "jsstring \<Rightarrow> jsstring \<Rightarrow> classification" where
  "classify base fullPath =
     (let b = toLowerCase base in
      if b \<in> set (map fst KNOWN_EXE_MAP) then \<lparr>category = Game, confidence = 9 / 10\<rparr>
      else if b \<in> set KNOWN_GEEK_SET then \<lparr>category = Geek, confidence = 8 / 10\<rparr>
      else if hasGameHint fullPath then \<lparr>category = Game, confidence = 6 / 10\<rparr>
      else \<lparr>category = Other, confidence = 3 / 10\<rparr>)"

section \<open>The display name resolver\<close>

text \<open>
  \<open>createNameResolver\<close> closes over its options (\<open>knownMap\<close>, \<open>platform\<close>), the index
  \<open>precomputedPaths\<close> that \<open>warmup\<close> fills once, and the operating system the metadata
  probes ask. The three probes are read here as functions of the path: each catches its own
  failures and answers \<open>null\<close> then, which is \<open>None\<close>.
\<close>

record env =
  platform :: platform
  knownMap :: "(jsstring \<times> jsstring) list"
  precomputedPaths :: "(jsstring \<times> jsstring) list"
  fileDescriptionWindows :: "jsstring \<Rightarrow> jsstring option"
  macBundleName :: "jsstring \<Rightarrow> jsstring option"
  linuxDesktopName :: "jsstring \<Rightarrow> jsstring option"

record cache =
  byExe :: "jsstring \<rightharpoonup> jsstring"
  byPath :: "jsstring \<rightharpoonup> jsstring"
  updatedAt :: int

text \<open>
  The mutable state of one resolver: the cache, whether the flush timer of
  \<open>saveCacheSoon\<close> is pending (\<open>timer\<close> is not \<open>null\<close>), and how many times a flush
  has been scheduled with \<open>setTimeout\<close> so far.
\<close>

record resolverState =
  cache :: cache
  timer :: bool
  scheduled :: nat

record args =
  exePath :: jsstring
  processName :: jsstring
  windowTitle :: jsstring

text \<open>The resolver's own \<open>exeBase\<close> (no trim) and \<open>lower\<close>.\<close>

definition resolver_exeBase :: "platform \<Rightarrow> jsstring \<Rightarrow> jsstring" where
  "resolver_exeBase pf fp = (if fp \<noteq> [] then toLowerCase (basename pf fp) else [])"

definition lower :: "jsstring \<Rightarrow> jsstring" where
  "lower s = toLowerCase s"

definition saveCacheSoon :: "resolverState \<Rightarrow> resolverState" where
  "saveCacheSoon r = (if timer r then r else r\<lparr>timer := True, scheduled := scheduled r + 1\<rparr>)"

text \<open>
  The timer's callback, 500 ms after it was scheduled: it writes the file and clears the
  timer. The file is outside the state.
\<close>

definition flushTimerFires :: "resolverState \<Rightarrow> resolverState" where
  "flushTimerFires r = r\<lparr>timer := False\<rparr>"

text \<open>\<open>clock\<close> is what \<open>Date.now()\<close> answers inside \<open>putCache\<close>.\<close>

definition putCache :: "platform \<Rightarrow> jsstring \<Rightarrow> jsstring \<Rightarrow> int \<Rightarrow> resolverState \<Rightarrow> resolverState" where
  "putCache pf fp nm clock r =
     (if nm = [] then r
      else
        (let ex = resolver_exeBase pf fp;
             c = cache r;
             touchedExe = (ex \<noteq> [] \<and> getProp (byExe c) ex \<noteq> Some (Str nm));
             c1 = (if touchedExe then c\<lparr>byExe := setProp (byExe c) ex nm\<rparr> else c);
             pLower = (if fp \<noteq> [] then lower fp else []);
             touchedPath = (pLower \<noteq> [] \<and> getProp (byPath c1) pLower \<noteq> Some (Str nm));
             c2 = (if touchedPath then c1\<lparr>byPath := setProp (byPath c1) pLower nm\<rparr> else c1)
         in if touchedExe \<or> touchedPath
            then saveCacheSoon (r\<lparr>cache := c2\<lparr>updatedAt := clock\<rparr>\<rparr>)
            else r))"

text \<open>\<open>ex.replace(/\.exe$/, '')\<close>\<close>

definition stripExeSuffix :: "jsstring \<Rightarrow> jsstring" where
  "stripExeSuffix ex = (if endsWith ex (js ''.exe'') then take (length ex - 4) ex else ex)"

text \<open>
  \<open>s.match(/steamapps\/common\/([^/]+)/)?.[1]\<close>: the first place where the literal is
  followed by a code unit other than \<open>/\<close>, and the run of such code units there.
\<close>

fun steamCommonFolder :: "jsstring \<Rightarrow> jsstring option" where
  "steamCommonFolder [] = None"
| "steamCommonFolder (c # s) =
     (let w = js ''steamapps/common/'';
          folder = takeWhile (\<lambda>x. x \<noteq> SLASH) (drop (length w) (c # s))
      in if take (length w) (c # s) = w \<and> folder \<noteq> [] then Some folder
         else steamCommonFolder s)"

text \<open>\<open>s.replace(/[_-]+/g, ' ')\<close>\<close>

function replaceDashes :: "jsstring \<Rightarrow> jsstring" where
  "replaceDashes [] = []"
| "replaceDashes (c # s) =
     (if c = 95 \<or> c = 45
      then 32 # replaceDashes (dropWhile (\<lambda>x. x = 95 \<or> x = 45) s)
      else c # replaceDashes s)"
  by pat_completeness auto
termination
  by (relation "measure length") (auto simp: length_dropWhile_le less_Suc_eq_le)

text \<open>7) the basename without \<open>.exe\<close>, first letter in upper case\<close>

definition tierFallback :: "env \<Rightarrow> args \<Rightarrow> jsstring \<Rightarrow> int \<Rightarrow> resolverState \<Rightarrow> error + (jsval \<times> resolverState)" where
  "tierFallback e a ex clock r =
     (let fallback = stripExeSuffix ex;
          titled = (if fallback \<noteq> [] then toUpperCase (take 1 fallback) @ drop 1 fallback
                    else js ''Unknown App'')
      in Inr (Str titled, putCache (platform e) (orElse (exePath a) ex) titled clock r))"

text \<open>6) the Steam folder of the path; \<open>decodeURI\<close> is called outside any \<open>try\<close>\<close>

definition tierSteamPath :: "env \<Rightarrow> args \<Rightarrow> jsstring \<Rightarrow> int \<Rightarrow> resolverState \<Rightarrow> error + (jsval \<times> resolverState)" where
  "tierSteamPath e a ex clock r =
     (if exePath a \<noteq> [] then
        (case steamCommonFolder
                (map (\<lambda>c. if c = BACKSLASH then SLASH else c) (lower (exePath a))) of
           Some folder \<Rightarrow>
             (case decodeURI folder of
                Inl err \<Rightarrow> Inl err
              | Inr decoded \<Rightarrow>
                  (let nm = replaceDashes decoded
                   in Inr (Str nm, putCache (platform e) (exePath a) nm clock r)))
         | None \<Rightarrow> tierFallback e a ex clock r)
      else tierFallback e a ex clock r)"

text \<open>5) the window title\<close>

definition tierWindowTitle :: "env \<Rightarrow> args \<Rightarrow> jsstring \<Rightarrow> int \<Rightarrow> resolverState \<Rightarrow> error + (jsval \<times> resolverState)" where
  "tierWindowTitle e a ex clock r =
     (if windowTitle a \<noteq> [] \<and> 3 \<le> length (trim (windowTitle a)) then
        (let t = take 80 (trim (windowTitle a))
         in Inr (Str t, putCache (platform e) (orElse (exePath a) ex) t clock r))
      else tierSteamPath e a ex clock r)"

text \<open>
  4) the metadata of the file: the three platform branches in the order of the source,
  each answering the name it accepts.
\<close>

definition metadataName :: "env \<Rightarrow> args \<Rightarrow> jsstring option" where
  "metadataName e a =
     (let win = (if platform e = Win32 \<and> exePath a \<noteq> []
                 then (case fileDescriptionWindows e (exePath a) of
                         Some fd \<Rightarrow> if fd \<noteq> [] \<and> 3 \<le> length fd then Some fd else None
                       | None \<Rightarrow> None)
                 else None);
          mac = (if platform e = Darwin \<and> exePath a \<noteq> [] \<and> endsWith (exePath a) (js ''.app'')
                 then (case macBundleName e (exePath a) of
                         Some nm \<Rightarrow> if nm \<noteq> [] then Some nm else None
                       | None \<Rightarrow> None)
                 else None);
          lin = (if platform e = Linux \<and> exePath a \<noteq> []
                 then (case linuxDesktopName e (exePath a) of
                         Some nm \<Rightarrow> if nm \<noteq> [] then Some nm else None
                       | None \<Rightarrow> None)
                 else None)
      in case win of Some fd \<Rightarrow> Some fd
         | None \<Rightarrow> (case mac of Some nm \<Rightarrow> Some nm | None \<Rightarrow> lin))"

definition tierMetadata :: "env \<Rightarrow> args \<Rightarrow> jsstring \<Rightarrow> int \<Rightarrow> resolverState \<Rightarrow> error + (jsval \<times> resolverState)" where
  "tierMetadata e a ex clock r =
     (case metadataName e a of
        Some nm \<Rightarrow> Inr (Str nm, putCache (platform e) (exePath a) nm clock r)
      | None \<Rightarrow> tierWindowTitle e a ex clock r)"

text \<open>3) the index of the library scan\<close>

definition tierPrecomputed :: "env \<Rightarrow> args \<Rightarrow> jsstring \<Rightarrow> int \<Rightarrow> resolverState \<Rightarrow> error + (jsval \<times> resolverState)" where
  "tierPrecomputed e a ex clock r =
     (if exePath a \<noteq> [] \<and> precomputedPaths e \<noteq> [] then
        (case map_of (precomputedPaths e) (lower (exePath a)) of
           Some found \<Rightarrow>
             if found \<noteq> [] then Inr (Str found, putCache (platform e) (exePath a) found clock r)
             else tierMetadata e a ex clock r
         | None \<Rightarrow> tierMetadata e a ex clock r)
      else tierMetadata e a ex clock r)"

text \<open>
  2) the cache, by basename and then by path; nothing is written. Whatever truthy value
  the property read gives is returned, a string or not.
\<close>

definition cacheLookup :: "args \<Rightarrow> jsstring \<Rightarrow> resolverState \<Rightarrow> jsval option" where
  "cacheLookup a ex r =
     (if ex \<noteq> [] \<and> truthy (getProp (byExe (cache r)) ex) then getProp (byExe (cache r)) ex
      else if exePath a \<noteq> [] \<and> truthy (getProp (byPath (cache r)) (lower (exePath a)))
      then getProp (byPath (cache r)) (lower (exePath a))
      else None)"

definition tierCache :: "env \<Rightarrow> args \<Rightarrow> jsstring \<Rightarrow> int \<Rightarrow> resolverState \<Rightarrow> error + (jsval \<times> resolverState)" where
  "tierCache e a ex clock r =
     (case cacheLookup a ex r of
        Some nm \<Rightarrow> Inr (nm, r)
      | None \<Rightarrow> tierPrecomputed e a ex clock r)"

text \<open>
  1) the known names, then the rest of the chain. \<open>exOf\<close> is the key \<open>ex\<close> of the
  source, the basename of the path or else the process name in lower case.
\<close>

definition exOf :: "env \<Rightarrow> args \<Rightarrow> jsstring" where
  "exOf e a = orElse (resolver_exeBase (platform e) (exePath a)) (lower (processName a))"

definition knownName :: "env \<Rightarrow> args \<Rightarrow> jsstring option" where
  "knownName e a = (if exOf e a \<noteq> [] then map_of (knownMap e) (exOf e a) else None)"

definition resolveDisplayName :: "env \<Rightarrow> args \<Rightarrow> int \<Rightarrow> resolverState \<Rightarrow> error + (jsval \<times> resolverState)" where
  "resolveDisplayName e a clock r =
     (case knownName e a of
        Some nm \<Rightarrow> Inr (Str nm, r)
      | None \<Rightarrow> tierCache e a (exOf e a) clock r)"

text \<open>
  The path the writing tiers hand to \<open>putCache\<close>: tiers 5 and 7 pass \<open>exePath || ex\<close>;
  tiers 3, 4 and 6 pass \<open>exePath\<close> and are reached with a non-empty path only.
\<close>

definition putPath :: "env \<Rightarrow> args \<Rightarrow> jsstring" where
  "putPath e a = orElse (exePath a) (exOf e a)"

section \<open>The session state machine\<close>

text \<open>What \<open>activeWin()\<close> answers: a window with an optional owner.\<close>

record owner =
  ownerPath :: jsstring
  ownerName :: jsstring
  processId :: "nat option"

record window =
  owner :: "owner option"
  title :: jsstring

datatype probe = ProbeThrows | NoWindow | Window window

text \<open>
  One poll tick: what the probe answers and the three readings of \<open>Date.now()\<close> of the
  tick, in \<open>pollActive\<close>, in \<open>putCache\<close> and in \<open>buildPresencePayload\<close>.
\<close>

record tick =
  probe :: probe
  now :: int
  putClock :: int
  tsClock :: int

record payload =
  p_source :: jsstring
  p_pid :: "nat option"
  p_exePath :: "jsstring option"
  p_exeName :: "jsstring option"
  p_displayName :: "jsval option"
  p_title :: "jsstring option"
  p_app :: "jsstring option"
  p_extra :: "unit option"
  p_ts :: int
  p_category :: category
  p_confidence :: rat

record session =
  signature :: jsstring
  pid :: "nat option"
  startedAt :: int
  lastSeen :: int
  payload :: payload

datatype event = Update payload | Heartbeat payload | Ended payload int

record worker =
  currentActive :: "session option"
  lastHeartbeatAt :: int
  resolver :: resolverState

text \<open>The fields \<open>pollActive\<close> reads off the window.\<close>

definition awProcName :: "window \<Rightarrow> jsstring" where
  "awProcName aw = (case owner aw of None \<Rightarrow> [] | Some ow \<Rightarrow> ownerName ow)"

definition awExePath :: "window \<Rightarrow> jsstring" where
  "awExePath aw =
     orElse (case owner aw of None \<Rightarrow> [] | Some ow \<Rightarrow> ownerPath ow) (awProcName aw)"

definition awPid :: "window \<Rightarrow> nat option" where
  "awPid aw = (case owner aw of None \<Rightarrow> None | Some ow \<Rightarrow> processId ow)"

definition awBase :: "platform \<Rightarrow> window \<Rightarrow> jsstring" where
  "awBase pf aw = exeBase pf (orElse (awExePath aw) (awProcName aw))"

text \<open>\<open>[exePath, title, procName, aw.owner?.processId ?? ''].join('|')\<close>\<close>

definition signatureOf :: "window \<Rightarrow> jsstring" where
  "signatureOf aw =
     join (js ''|'')
       [awExePath aw, title aw, awProcName aw,
        (case awPid aw of None \<Rightarrow> [] | Some n \<Rightarrow> numToString n)]"

text \<open>The two gates of \<open>pollActive\<close>: launchers and listed non-games, then relevance.\<close>

definition excluded :: "platform \<Rightarrow> window \<Rightarrow> bool" where
  "excluded pf aw = (awBase pf aw \<in> set LAUNCHER_BASES \<or> awBase pf aw \<in> set NON_GAME_BASES)"

definition relevant :: "platform \<Rightarrow> window \<Rightarrow> bool" where
  "relevant pf aw =
     (let cls = classify (awBase pf aw) (awExePath aw)
      in category cls = Game \<or> category cls = Geek \<or> hasGameHint (awExePath aw))"

definition buildPresencePayload ::
  "platform \<Rightarrow> jsstring \<Rightarrow> jsstring \<Rightarrow> jsstring \<Rightarrow> jsstring \<Rightarrow> nat option \<Rightarrow> jsval \<Rightarrow> int \<Rightarrow> classification \<Rightarrow> payload" where
  "buildPresencePayload pf src exe ttl app pd displayName ts cls =
     \<lparr>p_source = src, p_pid = pd, p_exePath = orNull exe, p_exeName = orNull (exeBase pf exe),
      p_displayName = orNullVal displayName, p_title = orNull ttl, p_app = orNull app,
      p_extra = None, p_ts = ts, p_category = category cls, p_confidence = confidence cls\<rparr>"

definition finishCurrentIfStale :: "int \<Rightarrow> worker \<Rightarrow> worker \<times> event list" where
  "finishCurrentIfStale t w =
     (case currentActive w of
        None \<Rightarrow> (w, [])
      | Some c \<Rightarrow>
          if t - lastSeen c > ACTIVE_STALE_MS
          then (w\<lparr>currentActive := None\<rparr>, [Ended (payload c) t])
          else (w, []))"

text \<open>
  The arguments \<open>pollActive\<close> passes to the resolver for a window, and the payload it
  builds from the name that comes back: \<open>buildPresencePayload\<close> extended with the
  category and the confidence.
\<close>

definition argsOf :: "window \<Rightarrow> args" where
  "argsOf aw = \<lparr>exePath = awExePath aw, processName = awProcName aw, windowTitle = title aw\<rparr>"

definition payloadFor :: "env \<Rightarrow> tick \<Rightarrow> window \<Rightarrow> jsval \<Rightarrow> payload" where
  "payloadFor e t aw displayName =
     buildPresencePayload (platform e) (js ''active'') (awExePath aw) (title aw)
       (awProcName aw) (awPid aw) displayName (tsClock t)
       (classify (awBase (platform e) aw) (awExePath aw))"

text \<open>
  The state after a session starts: the new \<open>currentActive\<close>, the heartbeat clock
  reset, the resolver as the call left it.
\<close>

definition startSession :: "env \<Rightarrow> tick \<Rightarrow> window \<Rightarrow> jsval \<Rightarrow> resolverState \<Rightarrow> worker" where
  "startSession e t aw displayName r =
     \<lparr>currentActive =
        Some \<lparr>signature = signatureOf aw, pid = awPid aw, startedAt = now t,
              lastSeen = now t, payload = payloadFor e t aw displayName\<rparr>,
      lastHeartbeatAt = now t, resolver = r\<rparr>"

text \<open>
  The branch of \<open>pollActive\<close> for a window that passed both gates. A throw of the
  resolver leaves through the \<open>catch\<close> of \<open>pollActive\<close>: what was sent before stays
  sent, the state is as it was, the error is logged.
\<close>

definition trackWindow :: "env \<Rightarrow> tick \<Rightarrow> window \<Rightarrow> worker \<Rightarrow> worker \<times> event list \<times> error list" where
  "trackWindow e t aw w =
     (let same = (case currentActive w of
                    None \<Rightarrow> False
                  | Some c \<Rightarrow> signature c = signatureOf aw)
      in if \<not> same then
           (let ended = (case currentActive w of
                           None \<Rightarrow> []
                         | Some c \<Rightarrow> [Ended (payload c) (now t)])
            in case resolveDisplayName e (argsOf aw) (putClock t) (resolver w) of
                 Inl err \<Rightarrow> (w, ended, [err])
               | Inr (displayName, r) \<Rightarrow>
                   (startSession e t aw displayName r,
                    ended @ [Update (payloadFor e t aw displayName)], []))
         else
           (case currentActive w of
              None \<Rightarrow> (w, [], [])
            | Some c \<Rightarrow>
                if now t - lastHeartbeatAt w \<ge> HEARTBEAT_MS
                then (w\<lparr>currentActive := Some (c\<lparr>lastSeen := now t\<rparr>),
                        lastHeartbeatAt := now t\<rparr>,
                      [Heartbeat (payload c)], [])
                else (w\<lparr>currentActive := Some (c\<lparr>lastSeen := now t\<rparr>)\<rparr>, [], [])))"

text \<open>
  One call of \<open>pollActive\<close>: the new state, the events sent to the parent in order, and
  what \<open>console.error\<close> logged. A throw of \<open>ensureDeps\<close> or \<open>activeWin\<close> reaches the
  \<open>catch\<close> before \<open>finishCurrentIfStale\<close> exists.
\<close>

definition pollActive :: "env \<Rightarrow> tick \<Rightarrow> worker \<Rightarrow> worker \<times> event list \<times> error list" where
  "pollActive e t w =
     (case probe t of
        ProbeThrows \<Rightarrow> (w, [], [ProbeFailed])
      | NoWindow \<Rightarrow> (fst (finishCurrentIfStale (now t) w), snd (finishCurrentIfStale (now t) w), [])
      | Window aw \<Rightarrow>
          if excluded (platform e) aw
          then (fst (finishCurrentIfStale (now t) w), snd (finishCurrentIfStale (now t) w), [])
          else if \<not> relevant (platform e) aw
          then (fst (finishCurrentIfStale (now t) w), snd (finishCurrentIfStale (now t) w), [])
          else trackWindow e t aw w)"

text \<open>
  A run of poll ticks, each one finished before the next begins: the final state and
  everything sent and logged, in order.
\<close>

fun run :: "env \<Rightarrow> tick list \<Rightarrow> worker \<Rightarrow> worker \<times> event list \<times> error list" where
  "run e [] w = (w, [], [])"
| "run e (t # ts) w =
     (case pollActive e t w of
        (w1, evs1, log1) \<Rightarrow>
          (case run e ts w1 of
             (w2, evs2, log2) \<Rightarrow> (w2, evs1 @ evs2, log1 @ log2)))"

text \<open>
  The start discipline of an event stream: no update while a session is live, that is,
  since the last update with no ended event after it. \<open>live\<close> says whether a session is
  live where the stream begins.
\<close>

fun noDoubleStart :: "bool \<Rightarrow> event list \<Rightarrow> bool" where
  "noDoubleStart live [] = True"
| "noDoubleStart live (Update p # es) = (\<not> live \<and> noDoubleStart True es)"
| "noDoubleStart live (Heartbeat p # es) = noDoubleStart live es"
| "noDoubleStart live (Ended p n # es) = noDoubleStart False es"

text \<open>
  A window qualifies when it passes both gates; a tick is quiet when its probe answered
  and there is no qualifying window in the answer.
\<close>

definition qualifies :: "platform \<Rightarrow> window \<Rightarrow> bool" where
  "qualifies pf aw = (\<not> excluded pf aw \<and> relevant pf aw)"

fun quiet :: "platform \<Rightarrow> probe \<Rightarrow> bool" where
  "quiet pf ProbeThrows = False"
| "quiet pf NoWindow = True"
| "quiet pf (Window aw) = (\<not> qualifies pf aw)"

text \<open>Calls of \<open>putCache\<close> with no flush in between; calls of the resolver in a row.\<close>

fun putAll :: "platform \<Rightarrow> (jsstring \<times> jsstring \<times> int) list \<Rightarrow> resolverState \<Rightarrow> resolverState" where
  "putAll pf [] r = r"
| "putAll pf ((fp, nm, clock) # ps) r = putAll pf ps (putCache pf fp nm clock r)"

fun resolveAll :: "(env \<times> args \<times> int) list \<Rightarrow> resolverState \<Rightarrow> resolverState" where
  "resolveAll [] r = r"
| "resolveAll ((e, a, clock) # cs) r =
     (case resolveDisplayName e a clock r of
        Inl err \<Rightarrow> resolveAll cs r
      | Inr (nm, r') \<Rightarrow> resolveAll cs r')"

section \<open>A machine to run the worker on\<close>

text \<open>
  The worker as it starts on a Linux machine where the library scan found nothing and no
  desktop entry names the executables: \<open>createNameResolver\<close> with \<open>KNOWN_EXE_MAP\<close>, an
  empty cache, no session.
\<close>

definition linuxEnv :: env where
  "linuxEnv =
     \<lparr>platform = Linux, knownMap = KNOWN_EXE_MAP, precomputedPaths = [],
      fileDescriptionWindows = (\<lambda>p. None), macBundleName = (\<lambda>p. None),
      linuxDesktopName = (\<lambda>p. None)\<rparr>"

definition initialResolver :: resolverState where
  "initialResolver =
     \<lparr>cache = \<lparr>byExe = Map.empty, byPath = Map.empty, updatedAt = 0\<rparr>,
      timer = False, scheduled = 0\<rparr>"

definition initialWorker :: worker where
  "initialWorker = \<lparr>currentActive = None, lastHeartbeatAt = 0, resolver = initialResolver\<rparr>"

definition windowOf :: "string \<Rightarrow> string \<Rightarrow> nat \<Rightarrow> string \<Rightarrow> window" where
  "windowOf p n i t =
     \<lparr>owner = Some \<lparr>ownerPath = js p, ownerName = js n, processId = Some i\<rparr>, title = js t\<rparr>"

definition tickAt :: "int \<Rightarrow> probe \<Rightarrow> tick" where
  "tickAt t pr = \<lparr>probe = pr, now = t, putClock = t + 1, tsClock = t + 2\<rparr>"

text \<open>A game in a Steam library, with a title.\<close>

definition fooWindow :: window where
  "fooWindow = windowOf ''/games/steamapps/common/foo/foo'' ''foo'' 7 ''Foo Game''"

text \<open>The same game after its title changed.\<close>

definition fooWindow2 :: window where
  "fooWindow2 = windowOf ''/games/steamapps/common/foo/foo'' ''foo'' 7 ''Foo Game - Act 2''"

text \<open>A game whose Steam folder has a percent sign, showing a window with no title.\<close>

definition juiceWindow :: window where
  "juiceWindow = windowOf ''/games/steamapps/common/100% Orange Juice/oj'' ''oj'' 8 []"

text \<open>Two windows whose titles and process names differ and whose joined fields agree.\<close>

definition barWindow :: window where
  "barWindow = windowOf ''/games/steamapps/common/bar/bar'' ''bar'' 9 ''Bar|Menu''"

definition barWindow2 :: window where
  "barWindow2 = windowOf ''/games/steamapps/common/bar/bar'' ''Menu|bar'' 9 ''Bar''"

text \<open>The Steam client itself, run from a Steam library folder.\<close>

definition steamWindow :: window where
  "steamWindow = windowOf ''/games/steamapps/common/tools/steam.exe'' ''steam.exe'' 3 ''Steam''"

text \<open>The payload and the session of \<open>fooWindow\<close> when it starts at time \<open>t\<close>.\<close>

definition fooPayload :: "int \<Rightarrow> payload" where
  "fooPayload t =
     \<lparr>p_source = js ''active'', p_pid = Some 7,
      p_exePath = Some (js ''/games/steamapps/common/foo/foo''), p_exeName = Some (js ''foo''),
      p_displayName = Some (Str (js ''Foo Game'')), p_title = Some (js ''Foo Game''),
      p_app = Some (js ''foo''), p_extra = None, p_ts = t + 2, p_category = Game,
      p_confidence = 6 / 10\<rparr>"

definition fooSession :: "int \<Rightarrow> int \<Rightarrow> session" where
  "fooSession t seen =
     \<lparr>signature = js ''/games/steamapps/common/foo/foo|Foo Game|foo|7'', pid = Some 7,
      startedAt = t, lastSeen = seen, payload = fooPayload t\<rparr>"

definition fooResolver :: "int \<Rightarrow> resolverState" where
  "fooResolver t =
     \<lparr>cache = \<lparr>byExe = [js ''foo'' \<mapsto> js ''Foo Game''],
               byPath = [js ''/games/steamapps/common/foo/foo'' \<mapsto> js ''Foo Game''],
               updatedAt = t + 1\<rparr>,
      timer = True, scheduled = 1\<rparr>"

definition fooWorker :: "int \<Rightarrow> int \<Rightarrow> worker" where
  "fooWorker t seen =
     \<lparr>currentActive = Some (fooSession t seen), lastHeartbeatAt = t, resolver = fooResolver t\<rparr>"

text \<open>Another executable of the same basename, and a call with a process name only.\<close>

definition otherFooArgs :: args where
  "otherFooArgs =
     \<lparr>exePath = js ''/opt/other/foo'', processName = js ''foo'', windowTitle = js ''Other Title''\<rparr>"

definition strayArgs :: args where
  "strayArgs = \<lparr>exePath = [], processName = js ''x/foo'', windowTitle = js ''Other Title''\<rparr>"

text \<open>
  A level editor shipped in a Steam library under the name \<open>constructor\<close>, and a call
  with no path whose process name ends in \<open>/__proto__\<close>.
\<close>

definition constructorWindow :: window where
  "constructorWindow =
     windowOf ''/games/steamapps/common/tools/constructor'' ''constructor'' 5 ''Level Editor''"

definition protoArgs :: args where
  "protoArgs = \<lparr>exePath = [], processName = js ''qq/__proto__'', windowTitle = js ''Some Title''\<rparr>"


text \<open>The same machine once a desktop entry names every executable.\<close>

definition desktopEnv :: env where
  "desktopEnv = linuxEnv\<lparr>linuxDesktopName := (\<lambda>p. Some (js ''Foo Deluxe''))\<rparr>"

section \<open>The name cache\<close>

lemma lower_Nil_iff: "lower s = [] \<longleftrightarrow> s = []"
  by (simp add: lower_def toLowerCase_def)

lemma saveCacheSoon_cache: "cache (saveCacheSoon r) = cache r"
  by (simp add: saveCacheSoon_def)

lemma flushTimerFires_cache: "cache (flushTimerFires r) = cache r"
  by (simp add: flushTimerFires_def)

text \<open>Reading and writing the properties of a plain object.\<close>

lemma proto_inherited: "js ''__proto__'' \<in> set objectPrototypeKeys"
  by (simp add: objectPrototypeKeys_def)

lemma getProp_Str: "getProp m k = Some (Str v) \<longleftrightarrow> m k = Some v"
  by (simp add: getProp_def split: option.splits)

lemma getProp_setProp:
  "k \<noteq> js ''__proto__'' \<or> m k \<noteq> None \<Longrightarrow> getProp (setProp m k v) k = Some (Str v)"
  by (auto simp: getProp_def setProp_def)

lemma getProp_setProp_falsy:
  "\<not> truthy (getProp m k) \<Longrightarrow> getProp (setProp m k v) k = Some (Str v)"
  using proto_inherited by (auto simp: getProp_def setProp_def split: option.splits if_splits)

lemma getProp_setProp_other: "k' \<noteq> k \<Longrightarrow> getProp (setProp m k v) k' = getProp m k'"
  by (simp add: getProp_def setProp_def)

lemma setProp_plain: "k \<notin> set objectPrototypeKeys \<Longrightarrow> setProp m k v = m(k \<mapsto> v)"
  using proto_inherited by (auto simp: setProp_def)

lemma getProp_plain: "k \<notin> set objectPrototypeKeys \<Longrightarrow> m k = None \<Longrightarrow> getProp m k = None"
  by (simp add: getProp_def)

text \<open>
  After a put of a non-empty name both derived keys hold it, where the assignment
  stores: under every key but \<open>__proto__\<close>, and under \<open>__proto__\<close> when the object owns
  such a property.
\<close>

lemma putCache_byExe:
  "nm \<noteq> [] \<Longrightarrow> resolver_exeBase pf fp \<noteq> [] \<Longrightarrow>
   resolver_exeBase pf fp \<noteq> js ''__proto__''
     \<or> byExe (cache r) (resolver_exeBase pf fp) \<noteq> None \<Longrightarrow>
   getProp (byExe (cache (putCache pf fp nm clock r))) (resolver_exeBase pf fp) = Some (Str nm)"
  by (auto simp: putCache_def Let_def saveCacheSoon_cache getProp_setProp)

lemma putCache_byExe_falsy:
  "nm \<noteq> [] \<Longrightarrow> resolver_exeBase pf fp \<noteq> [] \<Longrightarrow>
   \<not> truthy (getProp (byExe (cache r)) (resolver_exeBase pf fp)) \<Longrightarrow>
   getProp (byExe (cache (putCache pf fp nm clock r))) (resolver_exeBase pf fp) = Some (Str nm)"
  by (auto simp: putCache_def Let_def saveCacheSoon_cache getProp_setProp_falsy)

lemma putCache_byPath:
  "nm \<noteq> [] \<Longrightarrow> fp \<noteq> [] \<Longrightarrow>
   lower fp \<noteq> js ''__proto__'' \<or> byPath (cache r) (lower fp) \<noteq> None \<Longrightarrow>
   getProp (byPath (cache (putCache pf fp nm clock r))) (lower fp) = Some (Str nm)"
  by (auto simp: putCache_def Let_def saveCacheSoon_cache lower_Nil_iff getProp_setProp)

text \<open>A put touches the basename key of its path only.\<close>

lemma putCache_byExe_other:
  "k \<noteq> resolver_exeBase pf fp \<Longrightarrow>
   getProp (byExe (cache (putCache pf fp nm clock r))) k = getProp (byExe (cache r)) k"
  by (auto simp: putCache_def Let_def saveCacheSoon_cache getProp_setProp_other)

text \<open>A put that finds its name under both keys changes nothing.\<close>

lemma putCache_unchanged:
  "(resolver_exeBase pf fp \<noteq> [] \<Longrightarrow>
      getProp (byExe (cache r)) (resolver_exeBase pf fp) = Some (Str nm)) \<Longrightarrow>
   (fp \<noteq> [] \<Longrightarrow> getProp (byPath (cache r)) (lower fp) = Some (Str nm)) \<Longrightarrow>
   putCache pf fp nm clock r = r"
  by (auto simp add: putCache_def Let_def lower_Nil_iff)

lemma putCache_twice:
  assumes "resolver_exeBase pf fp \<noteq> js ''__proto__''" and "lower fp \<noteq> js ''__proto__''"
  shows "putCache pf fp nm clock' (putCache pf fp nm clock r) = putCache pf fp nm clock r"
proof (cases "nm = []")
  case True
  then show ?thesis by (simp add: putCache_def)
next
  case False
  with assms show ?thesis
    by (intro putCache_unchanged putCache_byExe putCache_byPath) simp_all
qed

lemma putCache_after_flush:
  assumes "resolver_exeBase pf fp \<noteq> js ''__proto__''" and "lower fp \<noteq> js ''__proto__''"
  shows "putCache pf fp nm clock' (flushTimerFires (putCache pf fp nm clock r))
     = flushTimerFires (putCache pf fp nm clock r)"
proof (cases "nm = []")
  case True
  then show ?thesis by (simp add: putCache_def)
next
  case False
  with assms show ?thesis
    by (intro putCache_unchanged)
      (simp_all add: flushTimerFires_cache putCache_byExe putCache_byPath)
qed

lemma putCache_timer: "timer r \<Longrightarrow> timer (putCache pf fp nm clock r)"
  by (simp add: putCache_def Let_def saveCacheSoon_def)

lemma putCache_scheduled:
  "scheduled (putCache pf fp nm clock r)
     = scheduled r + (if \<not> timer r \<and> timer (putCache pf fp nm clock r) then 1 else 0)"
  by (simp add: putCache_def Let_def saveCacheSoon_def)

lemma putAll_scheduled:
  "scheduled (putAll pf ps r) \<le> scheduled r + (if timer r then 0 else 1)"
proof (induction ps arbitrary: r)
  case Nil
  then show ?case by simp
next
  case (Cons p ps)
  obtain fp nm clock where p: "p = (fp, nm, clock)" by (cases p)
  let ?r = "putCache pf fp nm clock r"
  have step: "scheduled (putAll pf ps ?r) \<le> scheduled ?r + (if timer ?r then 0 else 1)"
    by (rule Cons.IH)
  show ?case
  proof (cases "timer r")
    case True
    then have "timer ?r" and "scheduled ?r = scheduled r"
      by (simp_all add: putCache_timer putCache_scheduled)
    with step True p show ?thesis by simp
  next
    case False
    have "scheduled ?r + (if timer ?r then 0 else 1) \<le> scheduled r + 1"
      by (simp add: putCache_scheduled)
    with step False p show ?thesis by simp
  qed
qed

lemma foo_exeBase: "resolver_exeBase Linux (js ''/games/steamapps/common/foo/foo'') = js ''foo''"
  by code_simp

lemma foo_lower:
  "lower (js ''/games/steamapps/common/foo/foo'') = js ''/games/steamapps/common/foo/foo''"
  by code_simp

lemma foo_plain: "js ''foo'' \<notin> set objectPrototypeKeys"
  by code_simp

lemma foo_path_plain: "js ''/games/steamapps/common/foo/foo'' \<notin> set objectPrototypeKeys"
  by code_simp

lemma foo_put:
  "putCache Linux (js ''/games/steamapps/common/foo/foo'') (js ''Foo Game'') (t + 1) initialResolver
     = fooResolver t"
proof -
  have "js ''Foo Game'' \<noteq> []" "js ''foo'' \<noteq> []" "js ''/games/steamapps/common/foo/foo'' \<noteq> []"
    by (simp_all add: js_def)
  then show ?thesis
    by (simp add: putCache_def Let_def foo_exeBase foo_lower initialResolver_def
        fooResolver_def saveCacheSoon_def getProp_plain setProp_plain foo_plain foo_path_plain)
qed

lemma proto_base: "resolver_exeBase Linux (js ''qq/__proto__'') = js ''__proto__''"
  by code_simp

lemma proto_lower: "lower (js ''qq/__proto__'') = js ''qq/__proto__''"
  by code_simp

lemma proto_path_plain: "js ''qq/__proto__'' \<notin> set objectPrototypeKeys"
  by code_simp

text \<open>
  The state after a put for the path \<open>qq/__proto__\<close> on a fresh cache: the path key is
  stored, the basename key is not.
\<close>

lemma proto_put:
  "putCache Linux (js ''qq/__proto__'') (js ''Some Title'') clock initialResolver
     = \<lparr>cache = \<lparr>byExe = Map.empty, byPath = [js ''qq/__proto__'' \<mapsto> js ''Some Title''],
                 updatedAt = clock\<rparr>,
        timer = True, scheduled = 1\<rparr>"
proof -
  have "js ''Some Title'' \<noteq> []" "js ''__proto__'' \<noteq> []" "js ''qq/__proto__'' \<noteq> []"
    by (simp_all add: js_def)
  then show ?thesis
    by (simp add: putCache_def Let_def proto_base proto_lower initialResolver_def
        saveCacheSoon_def getProp_plain setProp_plain proto_path_plain)
      (simp add: getProp_def setProp_def proto_inherited)
qed

lemma proto_put_again:
  "putCache Linux (js ''qq/__proto__'') (js ''Some Title'') clock'
     \<lparr>cache = \<lparr>byExe = Map.empty, byPath = [js ''qq/__proto__'' \<mapsto> js ''Some Title''],
               updatedAt = clock\<rparr>,
      timer = tm, scheduled = n\<rparr>
     = saveCacheSoon
         \<lparr>cache = \<lparr>byExe = Map.empty, byPath = [js ''qq/__proto__'' \<mapsto> js ''Some Title''],
                   updatedAt = clock'\<rparr>,
          timer = tm, scheduled = n\<rparr>"
proof -
  have "js ''Some Title'' \<noteq> []" "js ''__proto__'' \<noteq> []" "js ''qq/__proto__'' \<noteq> []"
    by (simp_all add: js_def)
  then show ?thesis
    by (simp add: putCache_def Let_def proto_base proto_lower getProp_def setProp_def
        proto_inherited)
qed

text \<open>
  C8. The claim: a second put of the same (path, name) pair changes nothing and schedules
  no flush. The code keeps the names in a plain object: for a path whose basename is
  \<open>__proto__\<close> the assignment \<open>cache.byExe[ex] = name\<close> stores nothing, so every put of
  the pair finds the basename key different from the name again, rewrites \<open>updatedAt\<close>
  and calls \<open>saveCacheSoon\<close>, which schedules a second flush once the first has fired.
\<close>

theorem putCache_proto_put_twice:
  "byExe (cache (putCache Linux (js ''qq/__proto__'') (js ''Some Title'') 1001 initialResolver))
     (js ''__proto__'') = None
   \<and> updatedAt (cache (putCache Linux (js ''qq/__proto__'') (js ''Some Title'') 1001
        initialResolver)) = 1001
   \<and> updatedAt (cache (putCache Linux (js ''qq/__proto__'') (js ''Some Title'') 2001
        (putCache Linux (js ''qq/__proto__'') (js ''Some Title'') 1001 initialResolver))) = 2001
   \<and> scheduled (putCache Linux (js ''qq/__proto__'') (js ''Some Title'') 1001 initialResolver) = 1
   \<and> scheduled (putCache Linux (js ''qq/__proto__'') (js ''Some Title'') 2001
        (flushTimerFires
           (putCache Linux (js ''qq/__proto__'') (js ''Some Title'') 1001 initialResolver))) = 2"
  by (simp add: proto_put proto_put_again flushTimerFires_def saveCacheSoon_def)

text \<open>
  Where every assignment stores, that is for a path that is not \<open>__proto__\<close> in lower case
  and whose basename is not \<open>__proto__\<close>, a second put of the same pair leaves the whole
  state of the resolver as the first put left it, also when the flush of the first put
  has fired in between. However many puts arrive while no flush fires, at most one flush
  is scheduled.
\<close>

theorem putCache_idempotent_stored:
  assumes "resolver_exeBase pf fp \<noteq> js ''__proto__''" and "lower fp \<noteq> js ''__proto__''"
  shows "putCache pf fp nm clock' (putCache pf fp nm clock r) = putCache pf fp nm clock r
   \<and> putCache pf fp nm clock' (flushTimerFires (putCache pf fp nm clock r))
       = flushTimerFires (putCache pf fp nm clock r)
   \<and> scheduled (putAll pf ps r) \<le> scheduled r + 1"
proof -
  have "scheduled (putAll pf ps r) \<le> scheduled r + (if timer r then 0 else 1)"
    by (rule putAll_scheduled)
  then have "scheduled (putAll pf ps r) \<le> scheduled r + 1"
    by (simp split: if_splits)
  with assms show ?thesis
    by (simp add: putCache_twice putCache_after_flush)
qed

lemma foo_not_proto: "js ''foo'' \<noteq> js ''__proto__''"
  by code_simp

lemma foo_path_not_proto: "js ''/games/steamapps/common/foo/foo'' \<noteq> js ''__proto__''"
  by code_simp

theorem putCache_idempotent_stored_witness:
  "putCache Linux (js ''/games/steamapps/common/foo/foo'') (js ''Foo Game'') 2002
     (putCache Linux (js ''/games/steamapps/common/foo/foo'') (js ''Foo Game'') 1001
        initialResolver) = fooResolver 1000
   \<and> updatedAt (cache (fooResolver 1000)) = 1001
   \<and> scheduled (fooResolver 1000) = 1"
  using putCache_idempotent_stored [of Linux "js ''/games/steamapps/common/foo/foo''"
      "js ''Foo Game''" 2002 1001 initialResolver "[]"] foo_put [of 1000]
  by (simp add: fooResolver_def foo_exeBase foo_lower foo_not_proto foo_path_not_proto)

section \<open>The resolver\<close>

subsection \<open>What a call answers and what it writes\<close>

lemma decodeStep_error: "decodeStep c s = Inl err \<Longrightarrow> err = URIError"
  by (auto simp: decodeStep_def Let_def split: if_splits option.splits prod.splits)

lemma decodeStep_chunk: "decodeStep c s = Inr (chunk, k) \<Longrightarrow> chunk \<noteq> []"
  by (auto simp: decodeStep_def Let_def codePointToUnits_def
      split: if_splits option.splits prod.splits)

lemma decodeURI_error: "decodeURI s = Inl err \<Longrightarrow> err = URIError"
proof (induction s rule: decodeURI.induct)
  case 1
  then show ?case by simp
next
  case (2 c s)
  then show ?case
    by (auto split: sum.splits prod.splits dest: decodeStep_error)
qed

lemma decodeURI_nonempty: "decodeURI s = Inr d \<Longrightarrow> s \<noteq> [] \<Longrightarrow> d \<noteq> []"
  by (cases s) (auto split: sum.splits prod.splits dest: decodeStep_chunk)

lemma steamCommonFolder_nonempty: "steamCommonFolder s = Some f \<Longrightarrow> f \<noteq> []"
  by (induction s) (auto simp: Let_def split: if_splits)

lemma replaceDashes_nonempty: "d \<noteq> [] \<Longrightarrow> replaceDashes d \<noteq> []"
  by (cases d) auto

lemma tierFallback_result:
  "tierFallback e a ex clock r = Inr (nm, r') \<Longrightarrow>
   \<exists>s. nm = Str s \<and> s \<noteq> [] \<and> r' = putCache (platform e) (orElse (exePath a) ex) s clock r"
  by (cases "stripExeSuffix ex") (auto simp: tierFallback_def Let_def js_def toUpperCase_def)

lemma tierSteamPath_result:
  assumes "tierSteamPath e a ex clock r = Inr (nm, r')"
  shows "\<exists>s. nm = Str s \<and> s \<noteq> [] \<and> r' = putCache (platform e) (orElse (exePath a) ex) s clock r"
proof (cases "exePath a = []")
  case True
  with assms have "tierFallback e a ex clock r = Inr (nm, r')"
    by (simp add: tierSteamPath_def)
  then show ?thesis by (rule tierFallback_result)
next
  case path: False
  let ?s = "map (\<lambda>c. if c = BACKSLASH then SLASH else c) (lower (exePath a))"
  show ?thesis
  proof (cases "steamCommonFolder ?s")
    case None
    with assms path have "tierFallback e a ex clock r = Inr (nm, r')"
      by (simp add: tierSteamPath_def)
    then show ?thesis by (rule tierFallback_result)
  next
    case (Some folder)
    then have folder: "folder \<noteq> []" by (rule steamCommonFolder_nonempty)
    show ?thesis
    proof (cases "decodeURI folder")
      case (Inl err)
      with assms path Some show ?thesis by (simp add: tierSteamPath_def)
    next
      case (Inr decoded)
      then have "replaceDashes decoded \<noteq> []"
        using folder by (intro replaceDashes_nonempty) (rule decodeURI_nonempty)
      with assms path Some Inr show ?thesis
        by (auto simp: tierSteamPath_def Let_def orElse_def)
    qed
  qed
qed

lemma tierWindowTitle_result:
  assumes "tierWindowTitle e a ex clock r = Inr (nm, r')"
  shows "\<exists>s. nm = Str s \<and> s \<noteq> [] \<and> r' = putCache (platform e) (orElse (exePath a) ex) s clock r"
proof (cases "windowTitle a \<noteq> [] \<and> 3 \<le> length (trim (windowTitle a))")
  case True
  then have "take 80 (trim (windowTitle a)) \<noteq> []" by auto
  with assms True show ?thesis by (auto simp: tierWindowTitle_def Let_def)
next
  case False
  with assms have "tierSteamPath e a ex clock r = Inr (nm, r')"
    by (auto simp: tierWindowTitle_def)
  then show ?thesis by (rule tierSteamPath_result)
qed

lemma metadataName_Some: "metadataName e a = Some nm \<Longrightarrow> nm \<noteq> [] \<and> exePath a \<noteq> []"
  by (auto simp: metadataName_def Let_def split: if_splits option.splits)

lemma tierMetadata_result:
  assumes "tierMetadata e a ex clock r = Inr (nm, r')"
  shows "\<exists>s. nm = Str s \<and> s \<noteq> [] \<and> r' = putCache (platform e) (orElse (exePath a) ex) s clock r"
proof (cases "metadataName e a")
  case None
  with assms have "tierWindowTitle e a ex clock r = Inr (nm, r')"
    by (simp add: tierMetadata_def)
  then show ?thesis by (rule tierWindowTitle_result)
next
  case (Some m)
  from metadataName_Some [OF Some] assms Some show ?thesis
    by (auto simp: tierMetadata_def orElse_def)
qed

lemma tierPrecomputed_result:
  assumes "tierPrecomputed e a ex clock r = Inr (nm, r')"
  shows "\<exists>s. nm = Str s \<and> s \<noteq> [] \<and> r' = putCache (platform e) (orElse (exePath a) ex) s clock r"
proof (cases "exePath a \<noteq> [] \<and> precomputedPaths e \<noteq> []
    \<and> (\<exists>found. map_of (precomputedPaths e) (lower (exePath a)) = Some found \<and> found \<noteq> [])")
  case True
  then obtain found where "map_of (precomputedPaths e) (lower (exePath a)) = Some found"
    and "found \<noteq> []"
    by blast
  with assms True show ?thesis by (auto simp: tierPrecomputed_def orElse_def)
next
  case False
  then have "tierPrecomputed e a ex clock r = tierMetadata e a ex clock r"
    by (cases "map_of (precomputedPaths e) (lower (exePath a))")
      (auto simp: tierPrecomputed_def)
  with assms have "tierMetadata e a ex clock r = Inr (nm, r')"
    by simp
  then show ?thesis by (rule tierMetadata_result)
qed

lemma tierPrecomputed_error: "tierPrecomputed e a ex clock r = Inl err \<Longrightarrow> err = URIError"
  by (auto simp: tierPrecomputed_def tierMetadata_def tierWindowTitle_def tierSteamPath_def
      tierFallback_def Let_def split: if_splits option.splits sum.splits dest: decodeURI_error)

lemma cacheLookup_Some: "cacheLookup a ex r = Some nm \<Longrightarrow> truthy (Some nm)"
  by (auto simp: cacheLookup_def split: if_splits)

lemma cacheLookup_falsy:
  "cacheLookup a ex r = None \<Longrightarrow> ex \<noteq> [] \<Longrightarrow> \<not> truthy (getProp (byExe (cache r)) ex)"
  by (auto simp: cacheLookup_def split: if_splits)

lemma resolveDisplayName_known:
  "knownName e a = Some nm \<Longrightarrow> resolveDisplayName e a clock r = Inr (Str nm, r)"
  by (simp add: resolveDisplayName_def)

lemma resolveDisplayName_cached:
  "knownName e a = None \<Longrightarrow> cacheLookup a (exOf e a) r = Some nm \<Longrightarrow>
   resolveDisplayName e a clock r = Inr (nm, r)"
  by (simp add: resolveDisplayName_def tierCache_def)

lemma resolveDisplayName_lower:
  "knownName e a = None \<Longrightarrow> cacheLookup a (exOf e a) r = None \<Longrightarrow>
   resolveDisplayName e a clock r = tierPrecomputed e a (exOf e a) clock r"
  by (simp add: resolveDisplayName_def tierCache_def)

lemma resolveDisplayName_written:
  assumes "resolveDisplayName e a clock r = Inr (nm, r')"
    and "knownName e a = None" and "cacheLookup a (exOf e a) r = None"
  shows "\<exists>s. nm = Str s \<and> s \<noteq> []
    \<and> r' = putCache (platform e) (orElse (exePath a) (exOf e a)) s clock r"
  using assms by (simp add: resolveDisplayName_lower tierPrecomputed_result)

lemma resolveDisplayName_error:
  "resolveDisplayName e a clock r = Inl err \<Longrightarrow> err = URIError"
  by (cases "knownName e a"; cases "cacheLookup a (exOf e a) r")
    (auto simp: resolveDisplayName_known resolveDisplayName_cached resolveDisplayName_lower
      dest: tierPrecomputed_error)

lemma KNOWN_EXE_MAP_nonempty: "map_of KNOWN_EXE_MAP k = Some v \<Longrightarrow> v \<noteq> []"
proof -
  assume "map_of KNOWN_EXE_MAP k = Some v"
  then have "(k, v) \<in> set KNOWN_EXE_MAP" by (rule map_of_SomeD)
  moreover have "\<forall>kv \<in> set KNOWN_EXE_MAP. snd kv \<noteq> []"
    by (simp add: KNOWN_EXE_MAP_def js_def)
  ultimately show ?thesis by fastforce
qed

lemma resolver_exeBase_Nil: "resolver_exeBase pf [] = []"
  by (simp add: resolver_exeBase_def)

lemma exOf_base:
  "resolver_exeBase (platform e) (exePath a) \<noteq> [] \<Longrightarrow>
   exOf e a = resolver_exeBase (platform e) (exePath a)"
  by (simp add: exOf_def orElse_def)

lemma cacheLookup_byExe:
  "ex \<noteq> [] \<Longrightarrow> getProp (byExe (cache r)) ex = Some (Str nm) \<Longrightarrow> nm \<noteq> [] \<Longrightarrow>
   cacheLookup a ex r = Some (Str nm)"
  by (simp add: cacheLookup_def)

text \<open>A call that reads its keys as \<open>pollActive\<close> passes them keeps a cached basename.\<close>

lemma resolveDisplayName_keeps:
  assumes held: "getProp (byExe (cache r)) b = Some (Str nm)" "nm \<noteq> []" "b \<noteq> []"
    and call: "resolveDisplayName e a clock r = Inr (nm', r')"
    and disc: "exePath a = [] \<longrightarrow> processName a = []"
  shows "getProp (byExe (cache r')) b = Some (Str nm)"
proof (cases "knownName e a = None \<and> cacheLookup a (exOf e a) r = None")
  case False
  then have "r' = r"
    using call
    by (cases "knownName e a"; cases "cacheLookup a (exOf e a) r")
      (auto simp: resolveDisplayName_known resolveDisplayName_cached)
  with held show ?thesis by simp
next
  case True
  then obtain s where r': "r' = putCache (platform e) (orElse (exePath a) (exOf e a)) s clock r"
    using resolveDisplayName_written [OF call] by blast
  have "resolver_exeBase (platform e) (orElse (exePath a) (exOf e a)) \<noteq> b"
  proof (cases "exePath a = []")
    case empty: True
    with disc have "exOf e a = []"
      by (simp add: exOf_def orElse_def resolver_exeBase_def lower_def toLowerCase_def)
    with empty held show ?thesis by (simp add: orElse_def resolver_exeBase_def)
  next
    case path: False
    show ?thesis
    proof
      assume "resolver_exeBase (platform e) (orElse (exePath a) (exOf e a)) = b"
      with path have b: "resolver_exeBase (platform e) (exePath a) = b"
        by (simp add: orElse_def)
      with held have "exOf e a = b" by (simp add: exOf_base)
      with held have "cacheLookup a (exOf e a) r = Some (Str nm)"
        by (simp add: cacheLookup_byExe)
      with True show False by simp
    qed
  qed
  then show ?thesis using held r' by (simp add: putCache_byExe_other)
qed

lemma resolveAll_keeps:
  assumes "getProp (byExe (cache r)) b = Some (Str nm)" "nm \<noteq> []" "b \<noteq> []"
    and "\<forall>(e, a, clock) \<in> set calls. exePath a = [] \<longrightarrow> processName a = []"
  shows "getProp (byExe (cache (resolveAll calls r))) b = Some (Str nm)"
  using assms
proof (induction calls arbitrary: r)
  case Nil
  then show ?case by simp
next
  case (Cons c calls)
  obtain e a clock where c: "c = (e, a, clock)" by (cases c)
  from Cons.prems c have disc: "exePath a = [] \<longrightarrow> processName a = []"
    and rest: "\<forall>(e, a, clock) \<in> set calls. exePath a = [] \<longrightarrow> processName a = []"
    by auto
  show ?case
  proof (cases "resolveDisplayName e a clock r")
    case (Inl err)
    with c Cons.IH [OF Cons.prems(1-3) rest] show ?thesis by simp
  next
    case (Inr res)
    obtain nm' r' where res: "res = (nm', r')" by (cases res)
    have "getProp (byExe (cache r')) b = Some (Str nm)"
      using resolveDisplayName_keeps [OF Cons.prems(1-3) _ disc] Inr res by simp
    from Cons.IH [OF this Cons.prems(2,3) rest] c Inr res show ?thesis by simp
  qed
qed

subsection \<open>Calls on the Linux machine\<close>

lemma linuxEnv_simps:
  "platform linuxEnv = Linux" "knownMap linuxEnv = KNOWN_EXE_MAP"
  "precomputedPaths linuxEnv = []" "linuxDesktopName linuxEnv = (\<lambda>p. None)"
  by (simp_all add: linuxEnv_def)

lemma linux_metadata_none: "metadataName linuxEnv a = None"
  by (simp add: metadataName_def linuxEnv_simps)

text \<open>On this machine a call that misses the known names and the cache goes to the title.\<close>

lemma linux_lower_tiers:
  "tierPrecomputed linuxEnv a ex clock r = tierWindowTitle linuxEnv a ex clock r"
  by (simp add: tierPrecomputed_def tierMetadata_def linuxEnv_simps linux_metadata_none)

lemma cacheLookup_miss:
  "getProp (byExe (cache r)) ex = None \<Longrightarrow>
   getProp (byPath (cache r)) (lower (exePath a)) = None \<Longrightarrow>
   cacheLookup a ex r = None"
  by (simp add: cacheLookup_def)

lemma linux_title_tier:
  assumes "knownName linuxEnv a = None" and "cacheLookup a (exOf linuxEnv a) r = None"
    and "windowTitle a \<noteq> []" and "3 \<le> length (trim (windowTitle a))"
  shows "resolveDisplayName linuxEnv a clock r
     = Inr (Str (take 80 (trim (windowTitle a))),
            putCache Linux (putPath linuxEnv a) (take 80 (trim (windowTitle a))) clock r)"
proof -
  have "resolveDisplayName linuxEnv a clock r = tierWindowTitle linuxEnv a (exOf linuxEnv a) clock r"
    using assms(1,2) by (simp add: resolveDisplayName_lower linux_lower_tiers)
  also have "\<dots> = Inr (Str (take 80 (trim (windowTitle a))),
            putCache Linux (putPath linuxEnv a) (take 80 (trim (windowTitle a))) clock r)"
    using assms(3,4) by (simp add: tierWindowTitle_def Let_def putPath_def linuxEnv_simps)
  finally show ?thesis .
qed

lemma linux_steam_tier_throws:
  assumes "knownName linuxEnv a = None" and "cacheLookup a (exOf linuxEnv a) r = None"
    and "windowTitle a = []" and "exePath a \<noteq> []"
    and "steamCommonFolder (map (\<lambda>c. if c = BACKSLASH then SLASH else c) (lower (exePath a)))
           = Some folder"
    and "decodeURI folder = Inl err"
  shows "resolveDisplayName linuxEnv a clock r = Inl err"
proof -
  have "resolveDisplayName linuxEnv a clock r = tierWindowTitle linuxEnv a (exOf linuxEnv a) clock r"
    using assms(1,2) by (simp add: resolveDisplayName_lower linux_lower_tiers)
  also have "\<dots> = tierSteamPath linuxEnv a (exOf linuxEnv a) clock r"
    using assms(3) by (simp add: tierWindowTitle_def)
  also have "\<dots> = Inl err"
    using assms(4,5,6) by (simp add: tierSteamPath_def)
  finally show ?thesis .
qed

lemma cached_by_base:
  assumes "knownName e a = None" and "exOf e a = b" and "b \<noteq> []"
    and "getProp (byExe (cache r)) b = Some (Str nm)" and "nm \<noteq> []"
  shows "resolveDisplayName e a clock r = Inr (Str nm, r)"
proof -
  have "cacheLookup a b r = Some (Str nm)"
    using assms(3,4,5) by (rule cacheLookup_byExe)
  then have "cacheLookup a (exOf e a) r = Some (Str nm)"
    using assms(2) by simp
  with assms(1) show ?thesis by (rule resolveDisplayName_cached)
qed

lemma js_nonempty:
  "js ''foo'' \<noteq> []" "js ''Foo Game'' \<noteq> []" "js ''Other Title'' \<noteq> []"
  "js ''/games/steamapps/common/foo/foo'' \<noteq> []" "js ''oj'' \<noteq> []"
  by (simp_all add: js_def)

lemma foo_unknown: "knownName linuxEnv (argsOf fooWindow) = None"
  by code_simp

lemma foo_exOf: "exOf linuxEnv (argsOf fooWindow) = js ''foo''"
  by code_simp

lemma foo_putPath: "putPath linuxEnv (argsOf fooWindow) = js ''/games/steamapps/common/foo/foo''"
  by code_simp

lemma foo_lowpath:
  "lower (exePath (argsOf fooWindow)) = js ''/games/steamapps/common/foo/foo''"
  by code_simp

lemma foo_titled: "windowTitle (argsOf fooWindow) \<noteq> []"
  by code_simp

lemma foo_title_length: "3 \<le> length (trim (windowTitle (argsOf fooWindow)))"
  by code_simp

lemma foo_title_name: "take 80 (trim (windowTitle (argsOf fooWindow))) = js ''Foo Game''"
  by code_simp

lemma foo_miss:
  "cacheLookup (argsOf fooWindow) (exOf linuxEnv (argsOf fooWindow)) initialResolver = None"
  by code_simp

lemma foo_resolve:
  "resolveDisplayName linuxEnv (argsOf fooWindow) (t + 1) initialResolver
     = Inr (Str (js ''Foo Game''), fooResolver t)"
proof -
  note miss = foo_miss
  show ?thesis
    using linux_title_tier [OF foo_unknown miss foo_titled foo_title_length, of "t + 1"]
    unfolding foo_title_name foo_putPath foo_put .
qed

lemma foo_cached:
  "getProp (byExe (cache r)) (js ''foo'') = Some (Str nm) \<Longrightarrow> nm \<noteq> [] \<Longrightarrow>
   resolveDisplayName linuxEnv (argsOf fooWindow) clock r = Inr (Str nm, r)"
  using foo_unknown foo_exOf js_nonempty(1) by (rule cached_by_base)

lemma fooResolver_holds:
  "getProp (byExe (cache (fooResolver t))) (js ''foo'') = Some (Str (js ''Foo Game''))"
  by (simp add: fooResolver_def getProp_def)

lemma juice_args:
  "argsOf juiceWindow = \<lparr>exePath = js ''/games/steamapps/common/100% Orange Juice/oj'',
     processName = js ''oj'', windowTitle = []\<rparr>"
  by code_simp

lemma juice_unknown: "knownName linuxEnv (argsOf juiceWindow) = None"
  by code_simp

lemma juice_exOf: "exOf linuxEnv (argsOf juiceWindow) = js ''oj''"
  by code_simp

lemma juice_lowpath:
  "lower (exePath (argsOf juiceWindow)) = js ''/games/steamapps/common/100% orange juice/oj''"
  by code_simp

lemma juice_untitled: "windowTitle (argsOf juiceWindow) = []"
  by code_simp

lemma juice_path: "exePath (argsOf juiceWindow) \<noteq> []"
  by code_simp

lemma juice_folder:
  "steamCommonFolder (map (\<lambda>c. if c = BACKSLASH then SLASH else c)
     (lower (exePath (argsOf juiceWindow)))) = Some (js ''100% orange juice'')"
  by code_simp

lemma juice_decode: "decodeURI (js ''100% orange juice'') = Inl URIError"
  by code_simp

lemma juice_throws:
  assumes "cacheLookup (argsOf juiceWindow) (exOf linuxEnv (argsOf juiceWindow)) r = None"
  shows "resolveDisplayName linuxEnv (argsOf juiceWindow) clock r = Inl URIError"
  using juice_unknown assms juice_untitled juice_path juice_folder juice_decode
  by (rule linux_steam_tier_throws)

lemma juice_miss:
  "cacheLookup (argsOf juiceWindow) (exOf linuxEnv (argsOf juiceWindow)) initialResolver = None"
  by code_simp

lemma juice_miss_foo:
  "cacheLookup (argsOf juiceWindow) (exOf linuxEnv (argsOf juiceWindow)) (fooResolver 1000) = None"
  by code_simp

lemma other_unknown: "knownName linuxEnv otherFooArgs = None"
  by code_simp

lemma other_exOf: "exOf linuxEnv otherFooArgs = js ''foo''"
  by code_simp

lemma other_lowpath: "lower (exePath otherFooArgs) = js ''/opt/other/foo''"
  by code_simp

lemma other_path_absent:
  "getProp (byPath (cache (fooResolver 1000))) (lower (exePath otherFooArgs)) = None"
  by code_simp

lemma stray_unknown: "knownName linuxEnv strayArgs = None"
  by code_simp

lemma stray_exOf: "exOf linuxEnv strayArgs = js ''x/foo''"
  by code_simp

lemma stray_putPath: "putPath linuxEnv strayArgs = js ''x/foo''"
  by code_simp

lemma stray_lowpath: "lower (exePath strayArgs) = []"
  by code_simp

lemma stray_base: "resolver_exeBase Linux (js ''x/foo'') = js ''foo''"
  by code_simp

lemma stray_titled: "windowTitle strayArgs \<noteq> []"
  by code_simp

lemma stray_title_length: "3 \<le> length (trim (windowTitle strayArgs))"
  by code_simp

lemma stray_title_name: "take 80 (trim (windowTitle strayArgs)) = js ''Other Title''"
  by code_simp

lemma stray_miss: "cacheLookup strayArgs (exOf linuxEnv strayArgs) (fooResolver 1000) = None"
  by code_simp

lemma stray_resolve:
  "resolveDisplayName linuxEnv strayArgs 2001 (fooResolver 1000)
     = Inr (Str (js ''Other Title''),
            putCache Linux (js ''x/foo'') (js ''Other Title'') 2001 (fooResolver 1000))"
proof -
  note miss = stray_miss
  show ?thesis
    using linux_title_tier [OF stray_unknown miss stray_titled stray_title_length, of 2001]
    unfolding stray_title_name stray_putPath .
qed

text \<open>
  Two calls with the process name \<open>qq/__proto__\<close> and no path: each misses the cache,
  takes the title and puts it for the path \<open>qq/__proto__\<close>.
\<close>

lemma proto_unknown: "knownName linuxEnv protoArgs = None"
  by code_simp

lemma proto_putPath: "putPath linuxEnv protoArgs = js ''qq/__proto__''"
  by code_simp

lemma proto_titled: "windowTitle protoArgs \<noteq> []"
  by code_simp

lemma proto_title_length: "3 \<le> length (trim (windowTitle protoArgs))"
  by code_simp

lemma proto_title_name: "take 80 (trim (windowTitle protoArgs)) = js ''Some Title''"
  by code_simp

lemma proto_resolve:
  assumes "cacheLookup protoArgs (exOf linuxEnv protoArgs) r = None"
  shows "resolveDisplayName linuxEnv protoArgs clock r
     = Inr (Str (js ''Some Title''),
            putCache Linux (js ''qq/__proto__'') (js ''Some Title'') clock r)"
  using linux_title_tier [OF proto_unknown assms proto_titled proto_title_length, of clock]
  unfolding proto_title_name proto_putPath .

lemma proto_miss: "cacheLookup protoArgs (exOf linuxEnv protoArgs) initialResolver = None"
  by code_simp

lemma proto_miss_again:
  "cacheLookup protoArgs (exOf linuxEnv protoArgs)
     (putCache Linux (js ''qq/__proto__'') (js ''Some Title'') 1001 initialResolver) = None"
  by code_simp

lemma proto_calls:
  "resolveAll [(linuxEnv, protoArgs, 1001), (linuxEnv, protoArgs, 2001)] initialResolver
     = putCache Linux (js ''qq/__proto__'') (js ''Some Title'') 2001
         (putCache Linux (js ''qq/__proto__'') (js ''Some Title'') 1001 initialResolver)"
  by (simp add: proto_resolve [OF proto_miss] proto_resolve [OF proto_miss_again])

text \<open>A window of the executable \<open>constructor\<close> in a Steam library passes both gates.\<close>

lemma constructor_qualifies: "qualifies Linux constructorWindow"
  by code_simp

subsection \<open>The claims on the resolver\<close>

text \<open>
  C1. The claim: for every input \<open>resolveDisplayName\<close> returns a name and never throws to
  its caller, also for a path whose \<open>steamapps/common/<folder>\<close> segment is no valid
  URI-encoded string. The code calls \<open>decodeURI\<close> on the folder outside any \<open>try\<close>: for
  the Steam folder \<open>100% Orange Juice\<close>, an untitled window and no cache entry, the call
  throws \<open>URIError\<close> to its caller.
\<close>

theorem resolveDisplayName_throws:
  "resolveDisplayName linuxEnv
     \<lparr>exePath = js ''/games/steamapps/common/100% Orange Juice/oj'', processName = js ''oj'',
      windowTitle = []\<rparr> 1001 initialResolver = Inl URIError"
proof -
  have "resolveDisplayName linuxEnv (argsOf juiceWindow) 1001 initialResolver = Inl URIError"
    using juice_miss by (rule juice_throws)
  then show ?thesis by (simp only: juice_args)
qed

lemma cacheLookup_value:
  assumes "cacheLookup a ex r = Some v"
  shows "(\<exists>s. v = Str s \<and> s \<noteq> []) \<or> (\<exists>k. v = Inherited k \<and> k \<in> set objectPrototypeKeys)"
proof -
  from assms obtain m k where "getProp m k = Some v" and "truthy (Some v)"
    by (auto simp: cacheLookup_def split: if_splits)
  then show ?thesis
    by (cases v) (auto simp: getProp_def split: option.splits if_splits)
qed

lemma constructor_args:
  "argsOf constructorWindow
     = \<lparr>exePath = js ''/games/steamapps/common/tools/constructor'',
        processName = js ''constructor'', windowTitle = js ''Level Editor''\<rparr>"
  by code_simp

lemma constructor_unknown: "knownName linuxEnv (argsOf constructorWindow) = None"
  by code_simp

lemma constructor_found:
  "cacheLookup (argsOf constructorWindow) (exOf linuxEnv (argsOf constructorWindow))
     initialResolver = Some (Inherited (js ''constructor''))"
  by code_simp

text \<open>
  C6. The claim: every call returns a string that is not empty. The code keeps the cached
  names in a plain object and reads it with \<open>cache.byExe[ex]\<close>: for an executable named
  \<open>constructor\<close> and a cache that holds nothing, tier 2 finds the function that every
  object inherits under that name, takes it for a cached name and returns it. What the
  call returns is not a string.
\<close>

theorem resolveDisplayName_returns_inherited:
  "resolveDisplayName linuxEnv
     \<lparr>exePath = js ''/games/steamapps/common/tools/constructor'',
      processName = js ''constructor'', windowTitle = js ''Level Editor''\<rparr> 1001 initialResolver
     = Inr (Inherited (js ''constructor''), initialResolver)"
proof -
  have "resolveDisplayName linuxEnv (argsOf constructorWindow) 1001 initialResolver
      = Inr (Inherited (js ''constructor''), initialResolver)"
    using constructor_unknown constructor_found by (rule resolveDisplayName_cached)
  then show ?thesis by (simp only: constructor_args)
qed

text \<open>
  What a call can answer, with the known names of the worker: a string that is not empty,
  or a value inherited from \<open>Object.prototype\<close> under one of its twelve names, found by
  tier 2 and returned with the state untouched, or the \<open>URIError\<close> of C1. It never
  returns the empty string. For three empty strings it returns \<open>Unknown App\<close> from the
  last tier and writes nothing, and the last tier answers \<open>Unknown App\<close> whenever it is
  reached without a basename.
\<close>

theorem resolveDisplayName_answers:
  "((\<exists>s r'. resolveDisplayName (e\<lparr>knownMap := KNOWN_EXE_MAP\<rparr>) a clock r = Inr (Str s, r')
        \<and> s \<noteq> [])
      \<or> (\<exists>k. resolveDisplayName (e\<lparr>knownMap := KNOWN_EXE_MAP\<rparr>) a clock r = Inr (Inherited k, r)
            \<and> k \<in> set objectPrototypeKeys)
      \<or> resolveDisplayName (e\<lparr>knownMap := KNOWN_EXE_MAP\<rparr>) a clock r = Inl URIError)
   \<and> resolveDisplayName (e\<lparr>knownMap := KNOWN_EXE_MAP\<rparr>)
        \<lparr>exePath = [], processName = [], windowTitle = []\<rparr> clock r
       = Inr (Str (js ''Unknown App''), r)
   \<and> map_sum id fst (tierFallback e a [] clock r) = Inr (Str (js ''Unknown App''))"
proof -
  let ?e = "e\<lparr>knownMap := KNOWN_EXE_MAP\<rparr>"
  have first: "(\<exists>s r'. resolveDisplayName ?e a clock r = Inr (Str s, r') \<and> s \<noteq> [])
      \<or> (\<exists>k. resolveDisplayName ?e a clock r = Inr (Inherited k, r) \<and> k \<in> set objectPrototypeKeys)
      \<or> resolveDisplayName ?e a clock r = Inl URIError"
  proof (cases "resolveDisplayName ?e a clock r")
    case (Inl err)
    then show ?thesis using resolveDisplayName_error by blast
  next
    case (Inr res)
    obtain nm r' where res: "res = (nm, r')" by (cases res)
    show ?thesis
    proof (cases "knownName ?e a")
      case (Some k)
      then have "map_of KNOWN_EXE_MAP (exOf ?e a) = Some k"
        by (simp add: knownName_def split: if_splits)
      then have "k \<noteq> []" by (rule KNOWN_EXE_MAP_nonempty)
      moreover have "resolveDisplayName ?e a clock r = Inr (Str k, r)"
        using Some by (rule resolveDisplayName_known)
      ultimately show ?thesis by blast
    next
      case None
      show ?thesis
      proof (cases "cacheLookup a (exOf ?e a) r")
        case (Some v)
        have call: "resolveDisplayName ?e a clock r = Inr (v, r)"
          using None Some by (rule resolveDisplayName_cached)
        from cacheLookup_value [OF Some] call show ?thesis by blast
      next
        case no: None
        from Inr res have "resolveDisplayName ?e a clock r = Inr (nm, r')" by simp
        from resolveDisplayName_written [OF this None no] this show ?thesis by blast
      qed
    qed
  qed
  have second: "resolveDisplayName ?e \<lparr>exePath = [], processName = [], windowTitle = []\<rparr> clock r
       = Inr (Str (js ''Unknown App''), r)"
    by (simp add: resolveDisplayName_def knownName_def exOf_def Let_def orElse_def
        resolver_exeBase_def lower_def toLowerCase_def tierCache_def cacheLookup_def
        tierPrecomputed_def tierMetadata_def metadataName_def tierWindowTitle_def
        tierSteamPath_def tierFallback_def stripExeSuffix_def endsWith_def putCache_def js_def)
  have third: "map_sum id fst (tierFallback e a [] clock r) = Inr (Str (js ''Unknown App''))"
    by (simp add: tierFallback_def stripExeSuffix_def endsWith_def js_def Let_def)
  from first second third show ?thesis by blast
qed

theorem resolveDisplayName_answers_witness:
  "resolveDisplayName linuxEnv \<lparr>exePath = [], processName = [], windowTitle = []\<rparr> 1001
     initialResolver = Inr (Str (js ''Unknown App''), initialResolver)
   \<and> resolveDisplayName linuxEnv (argsOf fooWindow) 1001 initialResolver
       = Inr (Str (js ''Foo Game''), fooResolver 1000)
   \<and> js ''Foo Game'' \<noteq> []"
proof -
  have "linuxEnv\<lparr>knownMap := KNOWN_EXE_MAP\<rparr> = linuxEnv"
    by (simp add: linuxEnv_def)
  with resolveDisplayName_answers [of linuxEnv "argsOf fooWindow" 1001 initialResolver]
    foo_resolve [of 1000]
  show ?thesis by simp
qed

text \<open>
  C9, as amended. When a call returns a name that neither the known names nor the cache
  gave (tiers 3 to 7), the name is a string that is not empty and the state is the one
  \<open>putCache\<close> leaves for the path \<open>exePath || ex\<close>: reading the basename of that path
  gives the name when the basename is neither empty nor \<open>__proto__\<close>, and reading the
  path in lower case gives the name when the path is neither empty nor \<open>__proto__\<close>. A
  call that the known names or the cache answer (tiers 1 and 2) leaves the state as it was.
\<close>

theorem resolveDisplayName_write_back:
  assumes "resolveDisplayName e a clock r = Inr (nm, r')"
  shows "(knownName e a = None \<and> cacheLookup a (exOf e a) r = None \<longrightarrow>
            (\<exists>s. nm = Str s \<and> s \<noteq> [] \<and> r' = putCache (platform e) (putPath e a) s clock r)
            \<and> (resolver_exeBase (platform e) (putPath e a) \<noteq> []
                 \<and> resolver_exeBase (platform e) (putPath e a) \<noteq> js ''__proto__'' \<longrightarrow>
                 getProp (byExe (cache r')) (resolver_exeBase (platform e) (putPath e a))
                   = Some nm)
            \<and> (putPath e a \<noteq> [] \<and> lower (putPath e a) \<noteq> js ''__proto__'' \<longrightarrow>
                 getProp (byPath (cache r')) (lower (putPath e a)) = Some nm))
         \<and> (knownName e a \<noteq> None \<or> cacheLookup a (exOf e a) r \<noteq> None \<longrightarrow> r' = r)"
proof (intro conjI impI)
  assume miss: "knownName e a = None \<and> cacheLookup a (exOf e a) r = None"
  then have "knownName e a = None" and "cacheLookup a (exOf e a) r = None"
    by simp_all
  with assms
  have "\<exists>s. nm = Str s \<and> s \<noteq> []
      \<and> r' = putCache (platform e) (orElse (exePath a) (exOf e a)) s clock r"
    by (rule resolveDisplayName_written)
  then obtain s where s: "nm = Str s" and nm: "s \<noteq> []"
    and r': "r' = putCache (platform e) (putPath e a) s clock r"
    unfolding putPath_def by blast
  from s nm r'
  show "\<exists>s. nm = Str s \<and> s \<noteq> [] \<and> r' = putCache (platform e) (putPath e a) s clock r"
    by blast
  show "getProp (byExe (cache r')) (resolver_exeBase (platform e) (putPath e a)) = Some nm"
    if "resolver_exeBase (platform e) (putPath e a) \<noteq> []
        \<and> resolver_exeBase (platform e) (putPath e a) \<noteq> js ''__proto__''"
    unfolding s r' using nm that by (intro putCache_byExe) blast+
  show "getProp (byPath (cache r')) (lower (putPath e a)) = Some nm"
    if "putPath e a \<noteq> [] \<and> lower (putPath e a) \<noteq> js ''__proto__''"
    unfolding s r' using nm that by (intro putCache_byPath) blast+
next
  assume "knownName e a \<noteq> None \<or> cacheLookup a (exOf e a) r \<noteq> None"
  then show "r' = r"
    using assms
    by (cases "knownName e a"; cases "cacheLookup a (exOf e a) r")
      (auto simp: resolveDisplayName_known resolveDisplayName_cached)
qed

theorem resolveDisplayName_write_back_witness:
  "resolveDisplayName linuxEnv (argsOf fooWindow) 1001 initialResolver
     = Inr (Str (js ''Foo Game''), fooResolver 1000)
   \<and> fooResolver 1000
       = putCache Linux (js ''/games/steamapps/common/foo/foo'') (js ''Foo Game'') 1001
           initialResolver
   \<and> getProp (byExe (cache (fooResolver 1000))) (js ''foo'') = Some (Str (js ''Foo Game''))
   \<and> getProp (byPath (cache (fooResolver 1000))) (js ''/games/steamapps/common/foo/foo'')
       = Some (Str (js ''Foo Game''))"
proof -
  have res: "resolveDisplayName linuxEnv (argsOf fooWindow) 1001 initialResolver
      = Inr (Str (js ''Foo Game''), fooResolver 1000)"
    using foo_resolve [of 1000] by simp
  from foo_unknown foo_miss
  have miss: "knownName linuxEnv (argsOf fooWindow) = None
      \<and> cacheLookup (argsOf fooWindow) (exOf linuxEnv (argsOf fooWindow)) initialResolver = None"
    by blast
  note path = foo_putPath
  have base: "resolver_exeBase (platform linuxEnv) (putPath linuxEnv (argsOf fooWindow)) = js ''foo''"
    by (simp add: path linuxEnv_simps foo_exeBase)
  note ne = js_nonempty(1) js_nonempty(4) foo_not_proto foo_path_not_proto
  from resolveDisplayName_write_back [OF res] miss
  have wb: "\<exists>s. Str (js ''Foo Game'') = Str s \<and> s \<noteq> []
        \<and> fooResolver 1000
            = putCache (platform linuxEnv) (putPath linuxEnv (argsOf fooWindow)) s 1001
                initialResolver"
    and exe: "resolver_exeBase (platform linuxEnv) (putPath linuxEnv (argsOf fooWindow)) \<noteq> []
        \<and> resolver_exeBase (platform linuxEnv) (putPath linuxEnv (argsOf fooWindow))
            \<noteq> js ''__proto__'' \<longrightarrow>
        getProp (byExe (cache (fooResolver 1000)))
          (resolver_exeBase (platform linuxEnv) (putPath linuxEnv (argsOf fooWindow)))
          = Some (Str (js ''Foo Game''))"
    and pth: "putPath linuxEnv (argsOf fooWindow) \<noteq> []
        \<and> lower (putPath linuxEnv (argsOf fooWindow)) \<noteq> js ''__proto__'' \<longrightarrow>
        getProp (byPath (cache (fooResolver 1000))) (lower (putPath linuxEnv (argsOf fooWindow)))
          = Some (Str (js ''Foo Game''))"
    by blast+
  from wb obtain s where "Str (js ''Foo Game'') = Str s"
    and "fooResolver 1000
        = putCache (platform linuxEnv) (putPath linuxEnv (argsOf fooWindow)) s 1001
            initialResolver"
    by blast
  then have "fooResolver 1000
        = putCache (platform linuxEnv) (putPath linuxEnv (argsOf fooWindow)) (js ''Foo Game'')
            1001 initialResolver"
    by simp
  then have put: "fooResolver 1000
      = putCache Linux (js ''/games/steamapps/common/foo/foo'') (js ''Foo Game'') 1001
          initialResolver"
    unfolding path linuxEnv_simps .
  have k1: "getProp (byExe (cache (fooResolver 1000))) (js ''foo'') = Some (Str (js ''Foo Game''))"
    using exe ne unfolding base by blast
  have k2: "getProp (byPath (cache (fooResolver 1000))) (js ''/games/steamapps/common/foo/foo'')
      = Some (Str (js ''Foo Game''))"
    using pth ne unfolding path foo_lower by blast
  from res put k1 k2 show ?thesis by blast
qed

text \<open>
  C9 as stated fails at the cache tier: a call for \<open>/opt/other/foo\<close> finds the basename
  \<open>foo\<close> in the cache, returns its name and writes nothing, so the path key of the pair
  is still absent after the call.
\<close>

theorem cache_tier_writes_nothing:
  "resolveDisplayName linuxEnv otherFooArgs 5001 (fooResolver 1000)
     = Inr (Str (js ''Foo Game''), fooResolver 1000)
   \<and> knownName linuxEnv otherFooArgs = None
   \<and> getProp (byPath (cache (fooResolver 1000))) (lower (exePath otherFooArgs)) = None"
proof -
  from other_unknown other_exOf js_nonempty(1) fooResolver_holds [of 1000]
  have "resolveDisplayName linuxEnv otherFooArgs 5001 (fooResolver 1000)
      = Inr (Str (js ''Foo Game''), fooResolver 1000)"
    using js_nonempty(2) by (rule cached_by_base)
  moreover note other_path_absent
  ultimately show ?thesis using other_unknown by blast
qed

text \<open>
  C10, as amended. A call for an executable path with a basename, which neither the known
  names nor the cache answer, returns a name and writes it. After any further calls that
  pass a process name only when they pass a path (as \<open>pollActive\<close> does), every call of
  the same resolver for a path of that basename returns that name and leaves the state as
  it is, whatever its title, its library index and its metadata probes are.
\<close>

theorem cached_name_sticks:
  assumes first: "resolveDisplayName e0 a0 clock0 r0 = Inr (nm, r1)"
    and wrote: "knownName e0 a0 = None \<and> cacheLookup a0 (exOf e0 a0) r0 = None"
    and base: "resolver_exeBase (platform e0) (exePath a0) \<noteq> []"
    and calls: "\<forall>(e, a, clock) \<in> set calls. exePath a = [] \<longrightarrow> processName a = []"
    and later: "platform e = platform e0 \<and> knownMap e = knownMap e0
                \<and> resolver_exeBase (platform e) (exePath a)
                    = resolver_exeBase (platform e0) (exePath a0)"
  shows "resolveDisplayName e a clock (resolveAll calls r1) = Inr (nm, resolveAll calls r1)"
proof -
  let ?b = "resolver_exeBase (platform e0) (exePath a0)"
  have ex0: "exOf e0 a0 = ?b" using base by (rule exOf_base)
  have path0: "exePath a0 \<noteq> []" using base by (auto simp: resolver_exeBase_def)
  from wrote have "knownName e0 a0 = None" and "cacheLookup a0 (exOf e0 a0) r0 = None"
    by simp_all
  with first
  have "\<exists>s. nm = Str s \<and> s \<noteq> []
      \<and> r1 = putCache (platform e0) (orElse (exePath a0) (exOf e0 a0)) s clock0 r0"
    by (rule resolveDisplayName_written)
  then obtain s where s: "nm = Str s" and nm: "s \<noteq> []"
    and put: "r1 = putCache (platform e0) (orElse (exePath a0) (exOf e0 a0)) s clock0 r0"
    by blast
  from path0 have "orElse (exePath a0) (exOf e0 a0) = exePath a0"
    by (simp add: orElse_def)
  with put have r1: "r1 = putCache (platform e0) (exePath a0) s clock0 r0"
    by simp
  from wrote have "cacheLookup a0 (exOf e0 a0) r0 = None" by blast
  then have "cacheLookup a0 ?b r0 = None" unfolding ex0 .
  then have falsy: "\<not> truthy (getProp (byExe (cache r0)) ?b)"
    using base by (rule cacheLookup_falsy)
  have "getProp (byExe (cache r1)) ?b = Some (Str s)"
    unfolding r1 using nm base falsy by (rule putCache_byExe_falsy)
  then have held: "getProp (byExe (cache (resolveAll calls r1))) ?b = Some (Str s)"
    using nm base calls by (rule resolveAll_keeps)
  from later have same: "resolver_exeBase (platform e) (exePath a) = ?b"
    and known: "knownMap e = knownMap e0"
    by blast+
  from same base have "resolver_exeBase (platform e) (exePath a) \<noteq> []"
    by (rule ssubst)
  then have "exOf e a = resolver_exeBase (platform e) (exePath a)"
    by (rule exOf_base)
  with same have ex: "exOf e a = ?b" by simp
  from wrote have "knownName e0 a0 = None" by blast
  then have "map_of (knownMap e0) ?b = None"
    using base by (simp add: knownName_def ex0)
  then have "knownName e a = None"
    using base by (simp add: knownName_def ex known)
  moreover have "cacheLookup a (exOf e a) (resolveAll calls r1) = Some nm"
    unfolding ex s using base held nm by (rule cacheLookup_byExe)
  ultimately show ?thesis by (rule resolveDisplayName_cached)
qed

lemma bar_path: "exePath (argsOf barWindow) \<noteq> []"
  by code_simp

lemma foo2_base:
  "resolver_exeBase Linux (exePath (argsOf fooWindow2))
     = resolver_exeBase Linux (exePath (argsOf fooWindow))"
  by code_simp

lemma foo_base_nonempty: "resolver_exeBase Linux (exePath (argsOf fooWindow)) \<noteq> []"
  by code_simp

theorem cached_name_sticks_witness:
  "resolveDisplayName desktopEnv (argsOf fooWindow2) 3001
     (resolveAll [(linuxEnv, argsOf barWindow, 2001)] (fooResolver 1000))
     = Inr (Str (js ''Foo Game''),
            resolveAll [(linuxEnv, argsOf barWindow, 2001)] (fooResolver 1000))"
proof -
  from foo_unknown foo_miss have miss: "knownName linuxEnv (argsOf fooWindow) = None
      \<and> cacheLookup (argsOf fooWindow) (exOf linuxEnv (argsOf fooWindow)) initialResolver = None"
    by blast
  have base: "resolver_exeBase (platform linuxEnv) (exePath (argsOf fooWindow)) \<noteq> []"
    by (simp add: linuxEnv_simps foo_base_nonempty)
  have calls: "\<forall>(e, a, clock) \<in> set [(linuxEnv, argsOf barWindow, 2001 :: int)].
      exePath a = [] \<longrightarrow> processName a = []"
    by (simp add: bar_path)
  have later: "platform desktopEnv = platform linuxEnv \<and> knownMap desktopEnv = knownMap linuxEnv
      \<and> resolver_exeBase (platform desktopEnv) (exePath (argsOf fooWindow2))
          = resolver_exeBase (platform linuxEnv) (exePath (argsOf fooWindow))"
    by (simp add: desktopEnv_def linuxEnv_simps foo2_base)
  show ?thesis
    by (rule cached_name_sticks [OF foo_resolve [of 1000, simplified] miss base calls later])
qed

text \<open>
  C10 as stated fails: between two calls for \<open>foo\<close> a call with an empty path and the
  process name \<open>x/foo\<close> looks the cache up under \<open>x/foo\<close>, misses, and stores the title
  under the basename \<open>foo\<close>; the next call for the executable returns the new name.
\<close>

theorem cached_name_overwritten:
  "resolveDisplayName linuxEnv (argsOf fooWindow) 1001 initialResolver
     = Inr (Str (js ''Foo Game''), fooResolver 1000)
   \<and> map_sum id fst
       (resolveDisplayName linuxEnv (argsOf fooWindow) 3001
          (resolveAll [(linuxEnv, strayArgs, 2001)] (fooResolver 1000)))
       = Inr (Str (js ''Other Title''))
   \<and> js ''Other Title'' \<noteq> js ''Foo Game''"
proof -
  let ?r = "putCache Linux (js ''x/foo'') (js ''Other Title'') 2001 (fooResolver 1000)"
  have nm: "js ''Other Title'' \<noteq> []" "js ''foo'' \<noteq> []"
    by (simp_all add: js_def)
  have "getProp (byExe (cache ?r)) (resolver_exeBase Linux (js ''x/foo''))
      = Some (Str (js ''Other Title''))"
    using nm by (intro putCache_byExe) (simp_all add: stray_base foo_not_proto)
  then have "getProp (byExe (cache ?r)) (js ''foo'') = Some (Str (js ''Other Title''))"
    by (simp add: stray_base)
  then have "resolveDisplayName linuxEnv (argsOf fooWindow) 3001 ?r
      = Inr (Str (js ''Other Title''), ?r)"
    using nm by (intro foo_cached)
  moreover have "js ''Other Title'' \<noteq> js ''Foo Game''"
    by (simp add: js_def)
  ultimately show ?thesis
    using foo_resolve [of 1000] by (simp add: stray_resolve)
qed

section \<open>Ticks and runs\<close>

subsection \<open>One tick\<close>

lemma finishCurrentIfStale_cases:
  "finishCurrentIfStale n w =
     (case currentActive w of
        None \<Rightarrow> (w, [])
      | Some c \<Rightarrow>
          if n - lastSeen c > ACTIVE_STALE_MS
          then (w\<lparr>currentActive := None\<rparr>, [Ended (payload c) n])
          else (w, []))"
  by (simp add: finishCurrentIfStale_def)


lemma pollActive_quiet:
  assumes "quiet (platform e) (probe t)"
  shows "pollActive e t w =
     (case currentActive w of
        None \<Rightarrow> (w, [], [])
      | Some c \<Rightarrow>
          if now t - lastSeen c > ACTIVE_STALE_MS
          then (w\<lparr>currentActive := None\<rparr>, [Ended (payload c) (now t)], [])
          else (w, [], []))"
proof (cases "probe t")
  case ProbeThrows
  with assms show ?thesis by simp
next
  case NoWindow
  then show ?thesis
    by (simp add: pollActive_def finishCurrentIfStale_def split: option.splits)
next
  case (Window aw)
  with assms have "excluded (platform e) aw \<or> \<not> relevant (platform e) aw"
    by (simp add: qualifies_def)
  with Window show ?thesis
    by (auto simp: pollActive_def finishCurrentIfStale_def split: option.splits)
qed

lemma pollActive_qualifying:
  "probe t = Window aw \<Longrightarrow> qualifies (platform e) aw \<Longrightarrow>
   pollActive e t w = trackWindow e t aw w"
  by (simp add: pollActive_def qualifies_def)

lemma trackWindow_start:
  assumes "currentActive w = None"
    and "resolveDisplayName e (argsOf aw) (putClock t) (resolver w) = Inr (nm, r)"
  shows "trackWindow e t aw w = (startSession e t aw nm r, [Update (payloadFor e t aw nm)], [])"
  using assms by (simp add: trackWindow_def)

lemma trackWindow_replace:
  assumes "currentActive w = Some c" and "signature c \<noteq> signatureOf aw"
    and "resolveDisplayName e (argsOf aw) (putClock t) (resolver w) = Inr (nm, r)"
  shows "trackWindow e t aw w
     = (startSession e t aw nm r, [Ended (payload c) (now t), Update (payloadFor e t aw nm)], [])"
  using assms by (simp add: trackWindow_def)

lemma trackWindow_throw:
  assumes "currentActive w = Some c" and "signature c \<noteq> signatureOf aw"
    and "resolveDisplayName e (argsOf aw) (putClock t) (resolver w) = Inl err"
  shows "trackWindow e t aw w = (w, [Ended (payload c) (now t)], [err])"
  using assms by (simp add: trackWindow_def)

lemma trackWindow_same:
  assumes "currentActive w = Some c" and "signature c = signatureOf aw"
  shows "trackWindow e t aw w =
     (if now t - lastHeartbeatAt w \<ge> HEARTBEAT_MS
      then (w\<lparr>currentActive := Some (c\<lparr>lastSeen := now t\<rparr>), lastHeartbeatAt := now t\<rparr>,
            [Heartbeat (payload c)], [])
      else (w\<lparr>currentActive := Some (c\<lparr>lastSeen := now t\<rparr>)\<rparr>, [], []))"
  using assms by (simp add: trackWindow_def)

lemma run_Cons:
  "pollActive e t w = (w1, evs1, log1) \<Longrightarrow> run e ts w1 = (w2, evs2, log2) \<Longrightarrow>
   run e (t # ts) w = (w2, evs1 @ evs2, log1 @ log2)"
  by simp

lemma run_single: "pollActive e t w = (w1, evs1, log1) \<Longrightarrow> run e [t] w = (w1, evs1, log1)"
  by simp

lemma tickAt_simps:
  "probe (tickAt n pr) = pr" "now (tickAt n pr) = n" "putClock (tickAt n pr) = n + 1"
  "tsClock (tickAt n pr) = n + 2"
  by (simp_all add: tickAt_def)

lemma foo_qualifies: "qualifies Linux fooWindow"
  by code_simp

lemma foo_signature:
  "signatureOf fooWindow = js ''/games/steamapps/common/foo/foo|Foo Game|foo|7''"
  by code_simp

lemma foo_pid: "awPid fooWindow = Some 7"
  by code_simp

lemma foo_payload:
  "payloadFor linuxEnv (tickAt n pr) fooWindow (Str (js ''Foo Game'')) = fooPayload n"
  by (simp add: payloadFor_def fooPayload_def tickAt_def linuxEnv_def buildPresencePayload_def)
    code_simp

lemma foo_startSession:
  "startSession linuxEnv (tickAt n pr) fooWindow (Str (js ''Foo Game'')) (fooResolver m)
     = \<lparr>currentActive = Some (fooSession n n), lastHeartbeatAt = n, resolver = fooResolver m\<rparr>"
  by (simp add: startSession_def foo_signature foo_pid foo_payload fooSession_def tickAt_simps)

lemma foo_starts:
  "pollActive linuxEnv (tickAt n (Window fooWindow)) initialWorker
     = (fooWorker n n, [Update (fooPayload n)], [])"
proof -
  have "resolveDisplayName linuxEnv (argsOf fooWindow) (putClock (tickAt n (Window fooWindow)))
          (resolver initialWorker) = Inr (Str (js ''Foo Game''), fooResolver n)"
    by (simp add: tickAt_simps initialWorker_def foo_resolve)
  then have "trackWindow linuxEnv (tickAt n (Window fooWindow)) fooWindow initialWorker
      = (startSession linuxEnv (tickAt n (Window fooWindow)) fooWindow (Str (js ''Foo Game''))
           (fooResolver n),
         [Update (payloadFor linuxEnv (tickAt n (Window fooWindow)) fooWindow
                    (Str (js ''Foo Game'')))], [])"
    by (intro trackWindow_start) (simp_all add: initialWorker_def)
  then show ?thesis
    by (simp add: pollActive_qualifying [of _ fooWindow] tickAt_simps linuxEnv_simps foo_qualifies
        foo_startSession foo_payload fooWorker_def)
qed

lemma trackWindow_idle:
  "currentActive w = None \<Longrightarrow>
   trackWindow e t aw w =
     (case resolveDisplayName e (argsOf aw) (putClock t) (resolver w) of
        Inl err \<Rightarrow> (w, [], [err])
      | Inr (nm, r) \<Rightarrow> (startSession e t aw nm r, [Update (payloadFor e t aw nm)], []))"
  by (simp add: trackWindow_def split: sum.splits)


text \<open>
  A window without owner, or whose owner has neither path nor name, has the empty path
  and the empty basename: it does not qualify.
\<close>

lemma empty_base: "exeBase pf [] = []"
  by (simp add: exeBase_def)

lemma empty_class: "category (classify [] []) = Other"
  by code_simp

lemma empty_hint: "\<not> hasGameHint []"
  by code_simp


lemma pathless_quiet:
  assumes "awExePath aw = []"
  shows "\<not> qualifies pf aw"
proof -
  from assms have "awProcName aw = []"
    by (simp add: awExePath_def orElse_def split: if_splits)
  with assms show ?thesis
    by (simp add: qualifies_def relevant_def awBase_def orElse_def empty_base empty_class
        empty_hint)
qed

lemma pollActive_malformed:
  assumes "probe t = Window aw" and "awExePath aw = []"
  shows "pollActive e t w = pollActive e (t\<lparr>probe := NoWindow\<rparr>) w"
proof -
  from assms have "excluded (platform e) aw \<or> \<not> relevant (platform e) aw"
    using pathless_quiet [of aw "platform e"] by (simp add: qualifies_def)
  with assms(1) show ?thesis
    by (auto simp: pollActive_def)
qed

subsection \<open>The claims on the state machine\<close>

lemma fooWorker_simps:
  "currentActive (fooWorker n m) = Some (fooSession n m)" "lastHeartbeatAt (fooWorker n m) = n"
  "resolver (fooWorker n m) = fooResolver n"
  "lastSeen (fooSession n m) = m" "payload (fooSession n m) = fooPayload n"
  "signature (fooSession n m) = js ''/games/steamapps/common/foo/foo|Foo Game|foo|7''"
  by (simp_all add: fooWorker_def fooSession_def)

lemma stale_constants: "ACTIVE_STALE_MS = 5000" "HEARTBEAT_MS = 5000"
  by (simp_all add: ACTIVE_STALE_MS_def HEARTBEAT_MS_def)





text \<open>
  C3, as amended. On every tick whose query answers with no window, an excluded window
  or an irrelevant one, staleness is evaluated: a session last seen more than the
  threshold ago is ended with exactly one event and the machine is idle; otherwise, and
  when the machine is idle already, nothing is sent and nothing changes. From the idle
  machine a qualifying window for which the resolver returns a name starts a fresh
  session, started and last seen at the time of the tick; when the resolver throws for
  it, the error is logged and the machine stays idle.
\<close>

theorem staleness_on_quiet_ticks:
  "(quiet (platform e) (probe t) \<longrightarrow>
      pollActive e t w =
        (case currentActive w of
           None \<Rightarrow> (w, [], [])
         | Some c \<Rightarrow>
             if now t - lastSeen c > ACTIVE_STALE_MS
             then (w\<lparr>currentActive := None\<rparr>, [Ended (payload c) (now t)], [])
             else (w, [], [])))
   \<and> (probe t = Window aw \<and> qualifies (platform e) aw \<and> currentActive w = None \<longrightarrow>
      pollActive e t w =
        (case resolveDisplayName e (argsOf aw) (putClock t) (resolver w) of
           Inl err \<Rightarrow> (w, [], [err])
         | Inr (nm, r) \<Rightarrow> (startSession e t aw nm r, [Update (payloadFor e t aw nm)], [])))"
  by (simp add: pollActive_quiet pollActive_qualifying trackWindow_idle)

theorem staleness_on_quiet_ticks_witness:
  "run linuxEnv [tickAt 9000 NoWindow, tickAt 9500 NoWindow, tickAt 10000 (Window fooWindow)]
     (fooWorker 1000 1000)
     = (\<lparr>currentActive = Some (fooSession 10000 10000), lastHeartbeatAt = 10000,
         resolver = fooResolver 1000\<rparr>,
        [Ended (fooPayload 1000) 9000, Update (fooPayload 10000)], [])"
proof -
  let ?idle = "(fooWorker 1000 1000)\<lparr>currentActive := None\<rparr>"
  let ?t = "tickAt 10000 (Window fooWindow)"
  have first: "pollActive linuxEnv (tickAt 9000 NoWindow) (fooWorker 1000 1000)
      = (?idle, [Ended (fooPayload 1000) 9000], [])"
    using staleness_on_quiet_ticks [of linuxEnv "tickAt 9000 NoWindow" "fooWorker 1000 1000"]
    by (simp add: tickAt_simps fooWorker_simps stale_constants)
  have second: "pollActive linuxEnv (tickAt 9500 NoWindow) ?idle = (?idle, [], [])"
    using staleness_on_quiet_ticks [of linuxEnv "tickAt 9500 NoWindow" ?idle]
    by (simp add: tickAt_simps)
  have call: "resolveDisplayName linuxEnv (argsOf fooWindow) 10001 (fooResolver 1000)
      = Inr (Str (js ''Foo Game''), fooResolver 1000)"
    using fooResolver_holds [of 1000] js_nonempty(2) by (rule foo_cached)
  have third: "pollActive linuxEnv ?t ?idle
      = (startSession linuxEnv ?t fooWindow (Str (js ''Foo Game'')) (fooResolver 1000),
         [Update (payloadFor linuxEnv ?t fooWindow (Str (js ''Foo Game'')))], [])"
    using staleness_on_quiet_ticks [of linuxEnv ?t ?idle fooWindow]
    by (simp add: tickAt_simps linuxEnv_simps foo_qualifies fooWorker_def call)
  show ?thesis
    using run_Cons [OF first run_Cons [OF second run_single [OF third]]]
    by (simp add: foo_startSession foo_payload)
qed

text \<open>
  C3 as stated fails on a tick with a qualifying window: staleness is not evaluated
  there. The window of the live session comes back 6001 ms after it was last seen; no
  ended event is sent, the old session goes on with a heartbeat and keeps its start time.
\<close>

theorem stale_session_resumed:
  "run linuxEnv [tickAt 1000 (Window fooWindow), tickAt 7001 (Window fooWindow)] initialWorker
     = (\<lparr>currentActive = Some (fooSession 1000 7001), lastHeartbeatAt = 7001,
         resolver = fooResolver 1000\<rparr>,
        [Update (fooPayload 1000), Heartbeat (fooPayload 1000)], [])
   \<and> 7001 - lastSeen (fooSession 1000 1000) > ACTIVE_STALE_MS"
proof -
  have "trackWindow linuxEnv (tickAt 7001 (Window fooWindow)) fooWindow (fooWorker 1000 1000)
      = (\<lparr>currentActive = Some (fooSession 1000 7001), lastHeartbeatAt = 7001,
          resolver = fooResolver 1000\<rparr>, [Heartbeat (fooPayload 1000)], [])"
    by (simp add: trackWindow_same [of _ "fooSession 1000 1000"] fooWorker_simps foo_signature
        tickAt_simps stale_constants) (simp add: fooWorker_def fooSession_def)
  then have "pollActive linuxEnv (tickAt 7001 (Window fooWindow)) (fooWorker 1000 1000)
      = (\<lparr>currentActive = Some (fooSession 1000 7001), lastHeartbeatAt = 7001,
          resolver = fooResolver 1000\<rparr>, [Heartbeat (fooPayload 1000)], [])"
    by (simp add: pollActive_qualifying [of _ fooWindow] tickAt_simps linuxEnv_simps foo_qualifies)
  from run_Cons [OF foo_starts [of 1000] run_single [OF this]]
  show ?thesis by (simp add: fooWorker_simps stale_constants)
qed

text \<open>
  C7. For a window whose basename is in the launcher set or in the non-game set, the
  tick only evaluates staleness: it ends a stale session, and sends and changes nothing
  otherwise; no update and no heartbeat is sent, whatever the classifier and the path
  hints say.
\<close>

theorem excluded_window_starts_nothing:
  assumes "probe t = Window aw"
    and "awBase (platform e) aw \<in> set LAUNCHER_BASES \<union> set NON_GAME_BASES"
  shows "pollActive e t w =
           (case currentActive w of
              None \<Rightarrow> (w, [], [])
            | Some c \<Rightarrow>
                if now t - lastSeen c > ACTIVE_STALE_MS
                then (w\<lparr>currentActive := None\<rparr>, [Ended (payload c) (now t)], [])
                else (w, [], []))
         \<and> (\<forall>pl. Update pl \<notin> set (fst (snd (pollActive e t w)))
                \<and> Heartbeat pl \<notin> set (fst (snd (pollActive e t w))))"
proof -
  from assms have "quiet (platform e) (probe t)"
    by (simp add: qualifies_def excluded_def)
  then have step: "pollActive e t w =
           (case currentActive w of
              None \<Rightarrow> (w, [], [])
            | Some c \<Rightarrow>
                if now t - lastSeen c > ACTIVE_STALE_MS
                then (w\<lparr>currentActive := None\<rparr>, [Ended (payload c) (now t)], [])
                else (w, [], []))"
    by (rule pollActive_quiet)
  then have "\<forall>pl. Update pl \<notin> set (fst (snd (pollActive e t w)))
                \<and> Heartbeat pl \<notin> set (fst (snd (pollActive e t w)))"
    by (simp split: option.splits)
  with step show ?thesis by blast
qed

lemma steam_base: "awBase Linux steamWindow = js ''steam.exe''"
  by code_simp

lemma steam_launcher: "js ''steam.exe'' \<in> set LAUNCHER_BASES"
  by code_simp

lemma steam_category: "category (classify (awBase Linux steamWindow) (awExePath steamWindow)) = Game"
  by code_simp

lemma steam_confidence:
  "confidence (classify (awBase Linux steamWindow) (awExePath steamWindow)) = 9 / 10"
  by code_simp

lemma steam_hint: "hasGameHint (awExePath steamWindow)"
  by code_simp

theorem excluded_window_starts_nothing_witness:
  "category (classify (awBase Linux steamWindow) (awExePath steamWindow)) = Game
   \<and> confidence (classify (awBase Linux steamWindow) (awExePath steamWindow)) = 9 / 10
   \<and> hasGameHint (awExePath steamWindow)
   \<and> pollActive linuxEnv (tickAt 9000 (Window steamWindow)) (fooWorker 1000 1000)
       = ((fooWorker 1000 1000)\<lparr>currentActive := None\<rparr>, [Ended (fooPayload 1000) 9000], [])
   \<and> pollActive linuxEnv (tickAt 3000 (Window steamWindow)) (fooWorker 1000 1000)
       = (fooWorker 1000 1000, [], [])
   \<and> pollActive linuxEnv (tickAt 3000 (Window steamWindow)) initialWorker
       = (initialWorker, [], [])"
proof -
  have ex: "awBase (platform linuxEnv) steamWindow \<in> set LAUNCHER_BASES \<union> set NON_GAME_BASES"
    by (simp add: linuxEnv_simps steam_base steam_launcher)
  have a: "pollActive linuxEnv (tickAt 9000 (Window steamWindow)) (fooWorker 1000 1000)
       = ((fooWorker 1000 1000)\<lparr>currentActive := None\<rparr>, [Ended (fooPayload 1000) 9000], [])"
    using excluded_window_starts_nothing [of "tickAt 9000 (Window steamWindow)" steamWindow
        linuxEnv "fooWorker 1000 1000"] ex
    by (simp add: tickAt_simps fooWorker_simps stale_constants)
  have b: "pollActive linuxEnv (tickAt 3000 (Window steamWindow)) (fooWorker 1000 1000)
       = (fooWorker 1000 1000, [], [])"
    using excluded_window_starts_nothing [of "tickAt 3000 (Window steamWindow)" steamWindow
        linuxEnv "fooWorker 1000 1000"] ex
    by (simp add: tickAt_simps fooWorker_simps stale_constants)
  have c: "pollActive linuxEnv (tickAt 3000 (Window steamWindow)) initialWorker
       = (initialWorker, [], [])"
    using excluded_window_starts_nothing [of "tickAt 3000 (Window steamWindow)" steamWindow
        linuxEnv initialWorker] ex
    by (simp add: tickAt_simps initialWorker_def)
  from steam_category steam_confidence steam_hint a b c show ?thesis by blast
qed

lemma juice_qualifies: "qualifies Linux juiceWindow"
  by code_simp

lemma juice_signature:
  "signatureOf juiceWindow \<noteq> js ''/games/steamapps/common/foo/foo|Foo Game|foo|7''"
  by code_simp

lemma juice_after_foo:
  "pollActive linuxEnv (tickAt n (Window juiceWindow)) (fooWorker 1000 1000)
     = (fooWorker 1000 1000, [Ended (fooPayload 1000) n], [URIError])"
proof -
  have "resolveDisplayName linuxEnv (argsOf juiceWindow)
          (putClock (tickAt n (Window juiceWindow))) (resolver (fooWorker 1000 1000))
      = Inl URIError"
    using juice_miss_foo by (simp add: fooWorker_simps juice_throws)
  then have "trackWindow linuxEnv (tickAt n (Window juiceWindow)) juiceWindow (fooWorker 1000 1000)
      = (fooWorker 1000 1000,
         [Ended (payload (fooSession 1000 1000)) (now (tickAt n (Window juiceWindow)))],
         [URIError])"
    using juice_signature
    by (intro trackWindow_throw) (simp_all add: fooWorker_simps)
  then show ?thesis
    by (simp add: pollActive_qualifying [of _ juiceWindow] tickAt_simps linuxEnv_simps
        juice_qualifies fooWorker_simps)
qed

text \<open>
  C2. The claim: the event stream of every run obeys the lifecycle started, heartbeats,
  ended. The code sends the ended event of the live session before it resolves the name
  of the next one; when the resolver throws (C1) the session stays current, and the next
  tick sends the ended event of the same session again.
\<close>

theorem ended_sent_twice:
  "run linuxEnv
     [tickAt 1000 (Window fooWindow), tickAt 2000 (Window juiceWindow),
      tickAt 3000 (Window juiceWindow)] initialWorker
     = (fooWorker 1000 1000,
        [Update (fooPayload 1000), Ended (fooPayload 1000) 2000, Ended (fooPayload 1000) 3000],
        [URIError, URIError])"
  using run_Cons [OF foo_starts [of 1000]
      run_Cons [OF juice_after_foo [of 2000] run_single [OF juice_after_foo [of 3000]]]]
  by simp

text \<open>Windows that agree on path, process name and process id and differ in the title.\<close>

lemma signatureOf_title:
  assumes "awExePath aw = awExePath aw'" and "awProcName aw = awProcName aw'"
    and "awPid aw = awPid aw'"
  shows "signatureOf aw = signatureOf aw' \<longleftrightarrow> title aw = title aw'"
  using assms by (simp add: signatureOf_def)

text \<open>
  A change of the title alone restarts the session: when the live session has the
  signature of a window and the tick shows a qualifying window that differs from it in
  the title only, the tick sends the ended event of the old session and then the update
  of the new one, provided the resolver returns.
\<close>

lemma title_change_restarts:
  assumes "probe t = Window aw'" and "qualifies (platform e) aw'"
    and "currentActive w = Some c" and "signature c = signatureOf aw"
    and "awExePath aw = awExePath aw'" and "awProcName aw = awProcName aw'"
    and "awPid aw = awPid aw'" and "title aw \<noteq> title aw'"
    and "resolveDisplayName e (argsOf aw') (putClock t) (resolver w) = Inr (nm, r)"
  shows "pollActive e t w
     = (startSession e t aw' nm r, [Ended (payload c) (now t), Update (payloadFor e t aw' nm)], [])"
proof -
  from assms(5-8) have "signatureOf aw \<noteq> signatureOf aw'"
    by (simp add: signatureOf_title)
  with assms(4) have "signature c \<noteq> signatureOf aw'" by simp
  with assms(3) have "trackWindow e t aw' w
     = (startSession e t aw' nm r, [Ended (payload c) (now t), Update (payloadFor e t aw' nm)], [])"
    using assms(9) by (rule trackWindow_replace)
  with assms(1,2) show ?thesis by (simp add: pollActive_qualifying)
qed

lemma bar_qualifies: "qualifies Linux barWindow"
  by code_simp

lemma bar2_qualifies: "qualifies Linux barWindow2"
  by code_simp

lemma bar_signatures: "signatureOf barWindow = signatureOf barWindow2"
  by code_simp

lemma bar_titles: "title barWindow \<noteq> title barWindow2"
  by code_simp

lemma bar_names: "awProcName barWindow \<noteq> awProcName barWindow2"
  by code_simp

lemma bar_unknown: "knownName linuxEnv (argsOf barWindow) = None"
  by code_simp

lemma bar_titled: "windowTitle (argsOf barWindow) \<noteq> []"
  by code_simp

lemma bar_title_length: "3 \<le> length (trim (windowTitle (argsOf barWindow)))"
  by code_simp

lemma bar_title_name: "take 80 (trim (windowTitle (argsOf barWindow))) = js ''Bar|Menu''"
  by code_simp

lemma bar_miss:
  "cacheLookup (argsOf barWindow) (exOf linuxEnv (argsOf barWindow)) initialResolver = None"
  by code_simp

lemma bar_resolve:
  "resolveDisplayName linuxEnv (argsOf barWindow) clock initialResolver
     = Inr (Str (js ''Bar|Menu''),
            putCache Linux (putPath linuxEnv (argsOf barWindow)) (js ''Bar|Menu'') clock
              initialResolver)"
proof -
  note miss = bar_miss
  show ?thesis
    using linux_title_tier [OF bar_unknown miss bar_titled bar_title_length, of clock]
    unfolding bar_title_name .
qed

text \<open>
  C4. The claim: two snapshots are the same session exactly when they agree on all four
  signature fields. The code compares the fields joined with \<open>|\<close>: two windows that
  differ in title and process name and agree once joined are taken for one session, and
  the second sends nothing.
\<close>

theorem joined_signature_collides:
  "signatureOf barWindow = signatureOf barWindow2
   \<and> title barWindow \<noteq> title barWindow2
   \<and> awProcName barWindow \<noteq> awProcName barWindow2
   \<and> fst (snd (run linuxEnv
                  [tickAt 1000 (Window barWindow), tickAt 2000 (Window barWindow2)]
                  initialWorker))
       = [Update (payloadFor linuxEnv (tickAt 1000 (Window barWindow)) barWindow (Str (js ''Bar|Menu'')))]"
proof -
  let ?t1 = "tickAt 1000 (Window barWindow)"
  let ?t2 = "tickAt 2000 (Window barWindow2)"
  let ?r = "putCache Linux (putPath linuxEnv (argsOf barWindow)) (js ''Bar|Menu'') 1001
              initialResolver"
  let ?w = "startSession linuxEnv ?t1 barWindow (Str (js ''Bar|Menu'')) ?r"
  let ?c = "\<lparr>signature = signatureOf barWindow, pid = awPid barWindow, startedAt = 1000,
             lastSeen = 1000,
             payload = payloadFor linuxEnv ?t1 barWindow (Str (js ''Bar|Menu''))\<rparr>"
  have "trackWindow linuxEnv ?t1 barWindow initialWorker
      = (?w, [Update (payloadFor linuxEnv ?t1 barWindow (Str (js ''Bar|Menu'')))], [])"
    by (rule trackWindow_start) (simp_all add: initialWorker_def tickAt_simps bar_resolve)
  then have first: "pollActive linuxEnv ?t1 initialWorker
      = (?w, [Update (payloadFor linuxEnv ?t1 barWindow (Str (js ''Bar|Menu'')))], [])"
    by (simp add: pollActive_qualifying [of _ barWindow] tickAt_simps linuxEnv_simps bar_qualifies)
  have cur: "currentActive ?w = Some ?c"
    by (simp add: startSession_def tickAt_simps)
  have "signature ?c = signatureOf barWindow2"
    by (simp add: bar_signatures)
  with cur have "trackWindow linuxEnv ?t2 barWindow2 ?w
      = (?w\<lparr>currentActive := Some (?c\<lparr>lastSeen := now ?t2\<rparr>)\<rparr>, [], [])"
    by (simp add: trackWindow_same [of _ ?c] startSession_def tickAt_simps stale_constants)
  then have second: "pollActive linuxEnv ?t2 ?w
      = (?w\<lparr>currentActive := Some (?c\<lparr>lastSeen := now ?t2\<rparr>)\<rparr>, [], [])"
    by (simp add: pollActive_qualifying [of _ barWindow2] tickAt_simps linuxEnv_simps
        bar2_qualifies)
  from run_Cons [OF first run_single [OF second]]
  have "fst (snd (run linuxEnv [?t1, ?t2] initialWorker))
      = [Update (payloadFor linuxEnv ?t1 barWindow (Str (js ''Bar|Menu'')))]"
    by simp
  with bar_signatures bar_titles bar_names show ?thesis by blast
qed

lemma foo2_qualifies: "qualifies Linux fooWindow2"
  by code_simp

lemma foo2_same_path: "awExePath fooWindow = awExePath fooWindow2"
  by code_simp

lemma foo2_same_name: "awProcName fooWindow = awProcName fooWindow2"
  by code_simp

lemma foo2_same_pid: "awPid fooWindow = awPid fooWindow2"
  by code_simp

lemma foo2_other_title: "title fooWindow \<noteq> title fooWindow2"
  by code_simp

lemma foo2_unknown: "knownName linuxEnv (argsOf fooWindow2) = None"
  by code_simp

lemma foo2_exOf: "exOf linuxEnv (argsOf fooWindow2) = js ''foo''"
  by code_simp

theorem title_change_restarts_witness:
  "pollActive linuxEnv (tickAt 2000 (Window fooWindow2)) (fooWorker 1000 1000)
     = (startSession linuxEnv (tickAt 2000 (Window fooWindow2)) fooWindow2 (Str (js ''Foo Game''))
          (fooResolver 1000),
        [Ended (fooPayload 1000) 2000,
         Update (payloadFor linuxEnv (tickAt 2000 (Window fooWindow2)) fooWindow2 (Str (js ''Foo Game'')))],
        [])"
proof -
  let ?t = "tickAt 2000 (Window fooWindow2)"
  have f1: "probe ?t = Window fooWindow2" by (simp add: tickAt_simps)
  have f2: "qualifies (platform linuxEnv) fooWindow2"
    by (simp add: linuxEnv_simps foo2_qualifies)
  have f3: "currentActive (fooWorker 1000 1000) = Some (fooSession 1000 1000)"
    by (simp add: fooWorker_simps)
  have f4: "signature (fooSession 1000 1000) = signatureOf fooWindow"
    by (simp add: fooWorker_simps foo_signature)
  from foo2_unknown foo2_exOf js_nonempty(1) fooResolver_holds [of 1000]
  have "resolveDisplayName linuxEnv (argsOf fooWindow2) (putClock ?t) (fooResolver 1000)
      = Inr (Str (js ''Foo Game''), fooResolver 1000)"
    using js_nonempty(2) by (rule cached_by_base)
  then have f9: "resolveDisplayName linuxEnv (argsOf fooWindow2) (putClock ?t)
      (resolver (fooWorker 1000 1000)) = Inr (Str (js ''Foo Game''), fooResolver 1000)"
    by (simp add: fooWorker_simps)
  from title_change_restarts [OF f1 f2 f3 f4 foo2_same_path foo2_same_name foo2_same_pid
      foo2_other_title f9]
  show ?thesis by (simp add: fooWorker_simps tickAt_simps)
qed

subsection \<open>Every run\<close>

lemma noDoubleStart_weaken: "noDoubleStart True es \<Longrightarrow> noDoubleStart live es"
proof (induction es)
  case Nil
  show ?case by simp
next
  case (Cons ev es)
  then show ?case by (cases ev) auto
qed

lemma trackWindow_discipline:
  assumes "trackWindow e t aw w = (w1, evs1, log1)"
    and "noDoubleStart (currentActive w1 \<noteq> None) evs2"
  shows "noDoubleStart (currentActive w \<noteq> None) (evs1 @ evs2)"
proof (cases "currentActive w")
  case None
  show ?thesis
  proof (cases "resolveDisplayName e (argsOf aw) (putClock t) (resolver w)")
    case (Inl err)
    with None assms show ?thesis by (auto simp: trackWindow_def)
  next
    case (Inr res)
    with None assms show ?thesis
      by (cases res) (auto simp: trackWindow_def startSession_def)
  qed
next
  case (Some c)
  show ?thesis
  proof (cases "signature c = signatureOf aw")
    case True
    with Some assms show ?thesis
      by (auto simp: trackWindow_def split: if_splits)
  next
    case False
    show ?thesis
    proof (cases "resolveDisplayName e (argsOf aw) (putClock t) (resolver w)")
      case (Inl err)
      with Some False assms show ?thesis
        by (auto simp: trackWindow_def intro: noDoubleStart_weaken)
    next
      case (Inr res)
      with Some False assms show ?thesis
        by (cases res) (auto simp: trackWindow_def startSession_def)
    qed
  qed
qed

lemma finish_discipline:
  assumes "finishCurrentIfStale n w = (w1, evs1)"
    and "noDoubleStart (currentActive w1 \<noteq> None) evs2"
  shows "noDoubleStart (currentActive w \<noteq> None) (evs1 @ evs2)"
  using assms by (auto simp: finishCurrentIfStale_def split: option.splits if_splits)

lemma pollActive_discipline:
  assumes "pollActive e t w = (w1, evs1, log1)"
    and "noDoubleStart (currentActive w1 \<noteq> None) evs2"
  shows "noDoubleStart (currentActive w \<noteq> None) (evs1 @ evs2)"
proof (cases "probe t")
  case ProbeThrows
  with assms show ?thesis by (auto simp: pollActive_def)
next
  case NoWindow
  with assms have "finishCurrentIfStale (now t) w = (w1, evs1)"
    by (auto simp: pollActive_def)
  then show ?thesis using assms(2) by (rule finish_discipline)
next
  case (Window aw)
  show ?thesis
  proof (cases "qualifies (platform e) aw")
    case True
    with Window assms have "trackWindow e t aw w = (w1, evs1, log1)"
      by (simp add: pollActive_qualifying)
    then show ?thesis using assms(2) by (rule trackWindow_discipline)
  next
    case False
    with Window assms have "finishCurrentIfStale (now t) w = (w1, evs1)"
      by (auto simp: pollActive_def qualifies_def split: if_splits)
    then show ?thesis using assms(2) by (rule finish_discipline)
  qed
qed

text \<open>
  Over every run, from every state and with whatever throws on the way, no update is sent
  while a session is live: between two updates there is always an ended event.
\<close>

theorem run_noDoubleStart:
  "noDoubleStart (currentActive w \<noteq> None) (fst (snd (run e ts w)))"
proof (induction ts arbitrary: w)
  case Nil
  show ?case by simp
next
  case (Cons t ts)
  obtain w1 evs1 log1 where step: "pollActive e t w = (w1, evs1, log1)"
    by (cases "pollActive e t w") auto
  obtain w2 evs2 log2 where rest: "run e ts w1 = (w2, evs2, log2)"
    by (cases "run e ts w1") auto
  from Cons.IH [of w1] rest have "noDoubleStart (currentActive w1 \<noteq> None) evs2"
    by simp
  with step have "noDoubleStart (currentActive w \<noteq> None) (evs1 @ evs2)"
    by (rule pollActive_discipline)
  with step rest show ?case by simp
qed

theorem run_noDoubleStart_witness:
  "noDoubleStart False
     [Update (fooPayload 1000), Ended (fooPayload 1000) 2000, Ended (fooPayload 1000) 3000]"
  using run_noDoubleStart [of initialWorker linuxEnv
      "[tickAt 1000 (Window fooWindow), tickAt 2000 (Window juiceWindow),
        tickAt 3000 (Window juiceWindow)]"]
    run_Cons [OF foo_starts [of 1000]
      run_Cons [OF juice_after_foo [of 2000] run_single [OF juice_after_foo [of 3000]]]]
  by (simp add: initialWorker_def)

end
